theory Spec2Isabelle
  imports Main
begin

section \<open>Tool-call identifiers (response building utilities)\<close>

text \<open>
  Go strings are byte sequences; \<open>len\<close> counts bytes and \<open>id[i]\<close> reads one byte.
  A \<open>string\<close> (a list of \<open>char\<close>) is the same data. Every index read below is
  guarded by the length test that precedes it in the same conjunction, as in the source.
\<close>

definition toClaudeToolID :: "string \<Rightarrow> string" where
  "toClaudeToolID ident =
     (if length ident > 6 \<and> ident ! 0 = CHR ''t'' \<and> ident ! 1 = CHR ''o'' \<and> ident ! 2 = CHR ''o''
          \<and> ident ! 3 = CHR ''l'' \<and> ident ! 4 = CHR ''u'' \<and> ident ! 5 = CHR ''_''
      then ident
      else if length ident > 5 \<and> ident ! 0 = CHR ''c'' \<and> ident ! 1 = CHR ''a'' \<and> ident ! 2 = CHR ''l''
          \<and> ident ! 3 = CHR ''l'' \<and> ident ! 4 = CHR ''_''
      then ''toolu_'' @ drop 5 ident
      else ''toolu_'' @ ident)"

text \<open>
  The conversion rule as the specification words it: prefix tests, with no condition on
  what follows the prefix.
\<close>

definition has_prefix :: "string \<Rightarrow> string \<Rightarrow> bool" where
  "has_prefix s p = (take (length p) s = p)"

definition toClaudeToolID_rule :: "string \<Rightarrow> string" where
  "toClaudeToolID_rule ident =
     (if has_prefix ident ''call_'' then ''toolu_'' @ drop 5 ident
      else if has_prefix ident ''toolu_'' then ident
      else ''toolu_'' @ ident)"

text \<open>
  What the source does: a prefix only counts when at least one byte follows it.
\<close>

definition toClaudeToolID_guarded :: "string \<Rightarrow> string" where
  "toClaudeToolID_guarded ident =
     (if length ident > 6 \<and> has_prefix ident ''toolu_'' then ident
      else if length ident > 5 \<and> has_prefix ident ''call_'' then ''toolu_'' @ drop 5 ident
      else ''toolu_'' @ ident)"

section \<open>Response builder\<close>

text \<open>
  The intermediate representation of a message, as \<open>types.go\<close> declares it. Field names
  carry a short prefix of their struct, since record fields share one name space.
  \<open>ContentType\<close> is a string type with seven declared constants; pointers that may be
  nil are options.
\<close>

datatype ContentType =
    ContentTypeText | ContentTypeReasoning | ContentTypeImage | ContentTypeFile
  | ContentTypeToolResult | ContentTypeExecutableCode | ContentTypeCodeResult

record ImagePart =
  img_MimeType :: string
  img_Data :: string
  img_URL :: string

record FilePart =
  file_FileID :: string
  file_FileURL :: string
  file_Filename :: string
  file_FileData :: string

record ToolResultPart =
  tr_ToolCallID :: string
  tr_Result :: string
  tr_Images :: "ImagePart list"
  tr_Files :: "FilePart list"

record CodeExecutionPart =
  ce_Language :: string
  ce_Code :: string
  ce_Outcome :: string
  ce_Output :: string

record ContentPart =
  cp_Type :: ContentType
  cp_Text :: string
  cp_Reasoning :: string
  cp_ThoughtSignature :: string
  cp_Image :: "ImagePart option"
  cp_File :: "FilePart option"
  cp_ToolResult :: "ToolResultPart option"
  cp_CodeExecution :: "CodeExecutionPart option"

record ToolCall =
  tc_ID :: string
  tc_Name :: string
  tc_Args :: string
  tc_PartialArgs :: string
  tc_ThoughtSignature :: string

datatype Role = RoleUser | RoleAssistant | RoleSystem | RoleTool

record Message =
  msg_Role :: Role
  msg_Content :: "ContentPart list"
  msg_ToolCalls :: "ToolCall list"

record Usage =
  PromptTokens :: int
  CompletionTokens :: int
  TotalTokens :: int

record ResponseBuilder =
  messages :: "Message list"
  usage :: "Usage option"
  model :: string

text \<open>
  The builders return \<open>[]interface{}\<close> holding \<open>map[string]interface{}\<close> values: a
  JSON-like tree. An object is an association list.
\<close>

datatype json =
    JNull | JBool bool | JNumber int | JString string
  | JArray "json list" | JObject "(string \<times> json) list"

text \<open>
  A slice read \<open>xs[i]\<close> panics out of range, and so does \<open>rand.Intn(n)\<close> for
  \<open>n \<le> 0\<close>. The panic is a value of the model, so that "no out-of-bounds access" is
  the statement that a function returns \<open>Inr\<close>.
\<close>

datatype panic = IndexOutOfRange | InvalidArgument

definition slice_index :: "'a list \<Rightarrow> int \<Rightarrow> panic + 'a" where
  "slice_index xs i =
     (if 0 \<le> i \<and> i < int (length xs) then Inr (xs ! nat i) else Inl IndexOutOfRange)"

definition NewResponseBuilder :: "Message list \<Rightarrow> Usage option \<Rightarrow> string \<Rightarrow> ResponseBuilder" where
  "NewResponseBuilder ms u m = \<lparr>messages = ms, usage = u, model = m\<rparr>"

definition GetLastMessage :: "ResponseBuilder \<Rightarrow> panic + Message option" where
  "GetLastMessage b =
     (if length (messages b) = 0 then Inr None
      else case slice_index (messages b) (int (length (messages b)) - 1) of
             Inl e \<Rightarrow> Inl e
           | Inr m \<Rightarrow> Inr (Some m))"

definition HasContent :: "ResponseBuilder \<Rightarrow> panic + bool" where
  "HasContent b =
     (case GetLastMessage b of
        Inl e \<Rightarrow> Inl e
      | Inr None \<Rightarrow> Inr False
      | Inr (Some msg) \<Rightarrow> Inr (length (msg_Content msg) > 0 \<or> length (msg_ToolCalls msg) > 0))"

text \<open>
  \<open>CombineTextParts\<close>, \<open>CombineReasoningParts\<close> and \<open>ParseToolCallArgs\<close> live in
  files of package \<open>ir\<close> that are not among the sources, and \<open>json.Unmarshal\<close> is
  the standard library's; the functions that call them take them as arguments
  (\<open>unmarshal\<close> answers \<open>None\<close> where \<open>json.Unmarshal\<close> returns an error).
\<close>

definition GetTextContent :: "(Message \<Rightarrow> string) \<Rightarrow> ResponseBuilder \<Rightarrow> panic + string" where
  "GetTextContent CombineTextParts b =
     (case GetLastMessage b of
        Inl e \<Rightarrow> Inl e
      | Inr None \<Rightarrow> Inr []
      | Inr (Some msg) \<Rightarrow> Inr (CombineTextParts msg))"

definition GetReasoningContent :: "(Message \<Rightarrow> string) \<Rightarrow> ResponseBuilder \<Rightarrow> panic + string" where
  "GetReasoningContent CombineReasoningParts b =
     (case GetLastMessage b of
        Inl e \<Rightarrow> Inl e
      | Inr None \<Rightarrow> Inr []
      | Inr (Some msg) \<Rightarrow> Inr (CombineReasoningParts msg))"

definition GetToolCalls :: "ResponseBuilder \<Rightarrow> panic + ToolCall list" where
  "GetToolCalls b =
     (case GetLastMessage b of
        Inl e \<Rightarrow> Inl e
      | Inr None \<Rightarrow> Inr []
      | Inr (Some msg) \<Rightarrow> Inr (msg_ToolCalls msg))"

definition HasToolCalls :: "ResponseBuilder \<Rightarrow> panic + bool" where
  "HasToolCalls b =
     (case GetToolCalls b of Inl e \<Rightarrow> Inl e | Inr tcs \<Rightarrow> Inr (length tcs > 0))"

definition DetermineFinishReason :: "ResponseBuilder \<Rightarrow> panic + string" where
  "DetermineFinishReason b =
     (case GetToolCalls b of
        Inl e \<Rightarrow> Inl e
      | Inr tcs \<Rightarrow> Inr (if length tcs > 0 then ''tool_calls'' else ''stop''))"

definition claude_tool_use :: "(string \<Rightarrow> json option) \<Rightarrow> ToolCall \<Rightarrow> json" where
  "claude_tool_use unmarshal tc =
     JObject [(''type'', JString ''tool_use''),
              (''id'', JString (toClaudeToolID (tc_ID tc))),
              (''name'', JString (tc_Name tc)),
              (''input'',
                 (if tc_Args tc \<noteq> [] \<and> tc_Args tc \<noteq> ''{}''
                  then (case unmarshal (tc_Args tc) of Some argsObj \<Rightarrow> argsObj | None \<Rightarrow> JObject [])
                  else JObject []))]"

definition BuildClaudeContentParts ::
  "(string \<Rightarrow> json option) \<Rightarrow> ResponseBuilder \<Rightarrow> panic + json list" where
  "BuildClaudeContentParts unmarshal b =
     (case GetLastMessage b of
        Inl e \<Rightarrow> Inl e
      | Inr None \<Rightarrow> Inr []
      | Inr (Some msg) \<Rightarrow>
          Inr ([JObject [(''type'', JString ''thinking''), (''thinking'', JString (cp_Reasoning part))].
                  part \<leftarrow> msg_Content msg,
                  cp_Type part = ContentTypeReasoning \<and> cp_Reasoning part \<noteq> []]
               @ [JObject [(''type'', JString ''text''), (''text'', JString (cp_Text part))].
                  part \<leftarrow> msg_Content msg,
                  cp_Type part = ContentTypeText \<and> cp_Text part \<noteq> []]
               @ map (claude_tool_use unmarshal) (msg_ToolCalls msg)))"

definition with_signature :: "ContentPart \<Rightarrow> (string \<times> json) list \<Rightarrow> json" where
  "with_signature part entries =
     JObject (if cp_ThoughtSignature part \<noteq> []
              then entries @ [(''thoughtSignature'', JString (cp_ThoughtSignature part))]
              else entries)"

definition gemini_content_part :: "ContentPart \<Rightarrow> json list" where
  "gemini_content_part part =
     (case cp_Type part of
        ContentTypeReasoning \<Rightarrow>
          (if cp_Reasoning part \<noteq> []
           then [with_signature part [(''text'', JString (cp_Reasoning part)), (''thought'', JBool True)]]
           else [])
      | ContentTypeText \<Rightarrow>
          (if cp_Text part \<noteq> []
           then [with_signature part [(''text'', JString (cp_Text part))]]
           else [])
      | ContentTypeImage \<Rightarrow>
          (case cp_Image part of
             Some img \<Rightarrow>
               (if img_Data img \<noteq> []
                then [JObject [(''inlineData'',
                        JObject [(''mimeType'', JString (img_MimeType img)),
                                 (''data'', JString (img_Data img))])]]
                else [])
           | None \<Rightarrow> [])
      | ContentTypeExecutableCode \<Rightarrow>
          (case cp_CodeExecution part of
             Some c \<Rightarrow>
               (if ce_Code c \<noteq> []
                then [JObject [(''executableCode'',
                        JObject [(''language'', JString (ce_Language c)),
                                 (''code'', JString (ce_Code c))])]]
                else [])
           | None \<Rightarrow> [])
      | ContentTypeCodeResult \<Rightarrow>
          (case cp_CodeExecution part of
             Some c \<Rightarrow>
               [JObject [(''codeExecutionResult'',
                  JObject [(''outcome'', JString (ce_Outcome c)),
                           (''output'', JString (ce_Output c))])]]
           | None \<Rightarrow> [])
      | ContentTypeFile \<Rightarrow> []
      | ContentTypeToolResult \<Rightarrow> [])"

definition gemini_function_call :: "(string \<Rightarrow> json) \<Rightarrow> ToolCall \<Rightarrow> json" where
  "gemini_function_call ParseToolCallArgs tc =
     JObject [(''functionCall'',
        JObject [(''name'', JString (tc_Name tc)), (''args'', ParseToolCallArgs (tc_Args tc))])]"

definition BuildGeminiContentParts ::
  "(string \<Rightarrow> json) \<Rightarrow> ResponseBuilder \<Rightarrow> panic + json list" where
  "BuildGeminiContentParts ParseToolCallArgs b =
     (case GetLastMessage b of
        Inl e \<Rightarrow> Inl e
      | Inr None \<Rightarrow> Inr []
      | Inr (Some msg) \<Rightarrow>
          Inr (concat (map gemini_content_part (msg_Content msg))
               @ map (gemini_function_call ParseToolCallArgs) (msg_ToolCalls msg)))"

section \<open>Model families\<close>

record FamilyMember =
  Provider :: string
  ModelID :: string
  Priority :: int

text \<open>The table of \<open>model_families.go\<close>; a Go map literal has no duplicate keys.\<close>

definition ModelFamilies :: "(string \<times> FamilyMember list) list" where
  "ModelFamilies =
    [(''claude-sonnet-4-5'',
        [\<lparr>Provider = ''kiro'', ModelID = ''claude-sonnet-4-5'', Priority = 1\<rparr>,
         \<lparr>Provider = ''antigravity'', ModelID = ''gemini-claude-sonnet-4-5'', Priority = 1\<rparr>,
         \<lparr>Provider = ''claude'', ModelID = ''claude-sonnet-4-5-20250929'', Priority = 2\<rparr>]),
     (''claude-sonnet-4-5-thinking'',
        [\<lparr>Provider = ''antigravity'', ModelID = ''gemini-claude-sonnet-4-5-thinking'', Priority = 1\<rparr>,
         \<lparr>Provider = ''claude'', ModelID = ''claude-sonnet-4-5-thinking'', Priority = 2\<rparr>]),
     (''claude-opus-4-5'',
        [\<lparr>Provider = ''kiro'', ModelID = ''claude-opus-4-5-20251101'', Priority = 1\<rparr>,
         \<lparr>Provider = ''claude'', ModelID = ''claude-opus-4-5-20251101'', Priority = 2\<rparr>]),
     (''claude-opus-4-5-thinking'',
        [\<lparr>Provider = ''antigravity'', ModelID = ''gemini-claude-opus-4-5-thinking'', Priority = 1\<rparr>,
         \<lparr>Provider = ''claude'', ModelID = ''claude-opus-4-5-thinking'', Priority = 2\<rparr>]),
     (''claude-sonnet-4'',
        [\<lparr>Provider = ''kiro'', ModelID = ''claude-sonnet-4-20250514'', Priority = 1\<rparr>,
         \<lparr>Provider = ''claude'', ModelID = ''claude-sonnet-4-20250514'', Priority = 2\<rparr>]),
     (''claude-3-7-sonnet'',
        [\<lparr>Provider = ''kiro'', ModelID = ''claude-3-7-sonnet-20250219'', Priority = 1\<rparr>,
         \<lparr>Provider = ''claude'', ModelID = ''claude-3-7-sonnet-20250219'', Priority = 2\<rparr>]),
     (''gemini-2.5-pro'',
        [\<lparr>Provider = ''gemini-cli'', ModelID = ''gemini-2.5-pro'', Priority = 1\<rparr>,
         \<lparr>Provider = ''antigravity'', ModelID = ''gemini-2.5-pro'', Priority = 1\<rparr>,
         \<lparr>Provider = ''aistudio'', ModelID = ''gemini-2.5-pro'', Priority = 2\<rparr>,
         \<lparr>Provider = ''gemini'', ModelID = ''gemini-2.5-pro'', Priority = 3\<rparr>]),
     (''gemini-2.5-flash'',
        [\<lparr>Provider = ''gemini-cli'', ModelID = ''gemini-2.5-flash'', Priority = 1\<rparr>,
         \<lparr>Provider = ''antigravity'', ModelID = ''gemini-2.5-flash'', Priority = 1\<rparr>,
         \<lparr>Provider = ''aistudio'', ModelID = ''gemini-2.5-flash'', Priority = 2\<rparr>,
         \<lparr>Provider = ''gemini'', ModelID = ''gemini-2.5-flash'', Priority = 3\<rparr>]),
     (''gemini-2.5-flash-lite'',
        [\<lparr>Provider = ''gemini-cli'', ModelID = ''gemini-2.5-flash-lite'', Priority = 1\<rparr>,
         \<lparr>Provider = ''antigravity'', ModelID = ''gemini-2.5-flash-lite'', Priority = 1\<rparr>,
         \<lparr>Provider = ''aistudio'', ModelID = ''gemini-2.5-flash-lite'', Priority = 2\<rparr>,
         \<lparr>Provider = ''gemini'', ModelID = ''gemini-2.5-flash-lite'', Priority = 3\<rparr>]),
     (''gemini-3-pro-preview'',
        [\<lparr>Provider = ''gemini-cli'', ModelID = ''gemini-3-pro-preview'', Priority = 1\<rparr>,
         \<lparr>Provider = ''antigravity'', ModelID = ''gemini-3-pro-preview'', Priority = 1\<rparr>,
         \<lparr>Provider = ''aistudio'', ModelID = ''gemini-3-pro-preview'', Priority = 2\<rparr>,
         \<lparr>Provider = ''gemini'', ModelID = ''gemini-3-pro-preview'', Priority = 3\<rparr>]),
     (''gpt-5.1-codex-max'',
        [\<lparr>Provider = ''github-copilot'', ModelID = ''gpt-5.1-codex-max'', Priority = 1\<rparr>,
         \<lparr>Provider = ''openai'', ModelID = ''gpt-5.1-codex-max'', Priority = 2\<rparr>])]"

text \<open>
  \<open>priorityGroups\<close> is a Go map from priority to the members appended so far; here an
  association list with one entry per key. \<open>group_append\<close> is the statement
  \<open>priorityGroups[k] = append(priorityGroups[k], member)\<close>, and \<open>group_lookup\<close> a map
  read, which yields the nil slice for an absent key.
\<close>

fun group_append :: "int \<Rightarrow> FamilyMember \<Rightarrow> (int \<times> FamilyMember list) list \<Rightarrow> (int \<times> FamilyMember list) list" where
  "group_append k v [] = [(k, [v])]"
| "group_append k v ((k', vs) # rest) =
     (if k = k' then (k', vs @ [v]) # rest else (k', vs) # group_append k v rest)"

definition group_lookup :: "(int \<times> FamilyMember list) list \<Rightarrow> int \<Rightarrow> FamilyMember list" where
  "group_lookup groups k = (case map_of groups k of None \<Rightarrow> [] | Some vs \<Rightarrow> vs)"

definition group_step ::
  "string list \<Rightarrow> (int \<times> FamilyMember list) list \<Rightarrow> FamilyMember \<Rightarrow> (int \<times> FamilyMember list) list" where
  "group_step availableProviders groups member =
     (if Provider member \<in> set availableProviders
      then group_append (Priority member) member groups
      else groups)"

definition priorityGroups :: "FamilyMember list \<Rightarrow> string list \<Rightarrow> (int \<times> FamilyMember list) list" where
  "priorityGroups family availableProviders = foldl (group_step availableProviders) [] family"

text \<open>
  \<open>rand.Intn\<close> is the argument \<open>intn\<close>: the run-time library promises a result in
  \<open>[0, n)\<close> for \<open>n > 0\<close> and panics otherwise. The keys of the map are collected in
  an unspecified order and then sorted, so any order of the association list will do.
\<close>

definition rand_Intn :: "(nat \<Rightarrow> nat) \<Rightarrow> int \<Rightarrow> panic + int" where
  "rand_Intn intn n = (if n \<le> 0 then Inl InvalidArgument else Inr (int (intn (nat n))))"

definition select_member :: "(nat \<Rightarrow> nat) \<Rightarrow> FamilyMember list \<Rightarrow> panic + FamilyMember" where
  "select_member intn highestPriorityMembers =
     (if length highestPriorityMembers = 1 then slice_index highestPriorityMembers 0
      else case rand_Intn intn (int (length highestPriorityMembers)) of
             Inl e \<Rightarrow> Inl e
           | Inr i \<Rightarrow> slice_index highestPriorityMembers i)"

definition ResolveModelFamily ::
  "(nat \<Rightarrow> nat) \<Rightarrow> string \<Rightarrow> string list \<Rightarrow> panic + (string \<times> string \<times> bool)" where
  "ResolveModelFamily intn canonicalID availableProviders =
     (case map_of ModelFamilies canonicalID of
        None \<Rightarrow> Inr ([], canonicalID, False)
      | Some family \<Rightarrow>
          (let groups = priorityGroups family availableProviders in
           if length groups = 0 then Inr ([], canonicalID, False)
           else
             (case slice_index (sort (map fst groups)) 0 of
                Inl e \<Rightarrow> Inl e
              | Inr p \<Rightarrow>
                  (case select_member intn (group_lookup groups p) of
                     Inl e \<Rightarrow> Inl e
                   | Inr selected \<Rightarrow> Inr (Provider selected, ModelID selected, True)))))"

text \<open>The members of a family whose provider is available, in table order.\<close>

definition available_members :: "FamilyMember list \<Rightarrow> string list \<Rightarrow> FamilyMember list" where
  "available_members family ps = filter (\<lambda>m. Provider m \<in> set ps) family"

section \<open>Buffer pool\<close>

text \<open>
  A \<open>[]byte\<close> is a slice header; the pool only looks at its length and capacity.
\<close>

record buffer =
  buf_len :: nat
  buf_cap :: nat

definition smallBufferSize :: int where "smallBufferSize = 4 * 1024"
definition mediumBufferSize :: int where "mediumBufferSize = 64 * 1024"
definition largeBufferSize :: int where "largeBufferSize = 1024 * 1024"

definition make_buffer :: "int \<Rightarrow> buffer" where
  "make_buffer c = \<lparr>buf_len = 0, buf_cap = nat c\<rparr>"

text \<open>
  A \<open>sync.Pool\<close> holds the items put into it. Its \<open>Get\<close> removes and returns an
  arbitrary stored item, or ignores the store and calls \<open>New\<close>; which of the two, and
  which item, is the caller-invisible choice \<open>pick\<close>. \<open>Stored i\<close> with no item at
  \<open>i\<close> falls back to \<open>New\<close>.
\<close>

datatype pick = Fresh | Stored nat

definition pool_Get :: "pick \<Rightarrow> buffer \<Rightarrow> buffer list \<Rightarrow> buffer \<times> buffer list" where
  "pool_Get pk new items =
     (case pk of
        Fresh \<Rightarrow> (new, items)
      | Stored i \<Rightarrow>
          (if i < length items then (items ! i, take i items @ drop (Suc i) items)
           else (new, items)))"

definition pool_Put :: "buffer \<Rightarrow> buffer list \<Rightarrow> buffer list" where
  "pool_Put b items = b # items"

record BufferPool =
  small :: "buffer list"
  medium :: "buffer list"
  large :: "buffer list"

definition NewBufferPool :: BufferPool where
  "NewBufferPool = \<lparr>small = [], medium = [], large = []\<rparr>"

definition Get :: "BufferPool \<Rightarrow> pick \<Rightarrow> int \<Rightarrow> buffer \<times> BufferPool" where
  "Get p pk sz =
     (if sz \<le> smallBufferSize then
        (let (b, rest) = pool_Get pk (make_buffer smallBufferSize) (small p)
         in (b, p\<lparr>small := rest\<rparr>))
      else if sz \<le> mediumBufferSize then
        (let (b, rest) = pool_Get pk (make_buffer mediumBufferSize) (medium p)
         in (b, p\<lparr>medium := rest\<rparr>))
      else if sz \<le> largeBufferSize then
        (let (b, rest) = pool_Get pk (make_buffer largeBufferSize) (large p)
         in (b, p\<lparr>large := rest\<rparr>))
      else (make_buffer sz, p))"

text \<open>
  \<open>Put\<close> writes the truncated header back through the pointer, so the caller's buffer
  is part of the result; \<open>None\<close> is the nil pointer.
\<close>

definition Put :: "BufferPool \<Rightarrow> buffer option \<Rightarrow> buffer option \<times> BufferPool" where
  "Put p buf =
     (case buf of
        None \<Rightarrow> (None, p)
      | Some b \<Rightarrow>
          (let cap = int (buf_cap b);
               b' = b\<lparr>buf_len := 0\<rparr>
           in if cap \<le> smallBufferSize then (Some b', p\<lparr>small := pool_Put b' (small p)\<rparr>)
              else if cap \<le> mediumBufferSize then (Some b', p\<lparr>medium := pool_Put b' (medium p)\<rparr>)
              else if cap \<le> largeBufferSize then (Some b', p\<lparr>large := pool_Put b' (large p)\<rparr>)
              else (Some b', p)))"

text \<open>
  The operations a caller can perform, and the pool after a sequence of them starting
  from a new pool. What is stored in a class: truncated buffers whose capacity does not
  exceed the limit of the class.
\<close>

datatype pool_op = OpGet pick int | OpPut "buffer option"

fun run_ops :: "BufferPool \<Rightarrow> pool_op list \<Rightarrow> BufferPool" where
  "run_ops p [] = p"
| "run_ops p (OpGet pk sz # ops) = run_ops (snd (Get p pk sz)) ops"
| "run_ops p (OpPut buf # ops) = run_ops (snd (Put p buf)) ops"

definition class_ok :: "int \<Rightarrow> buffer list \<Rightarrow> bool" where
  "class_ok limit items = list_all (\<lambda>b. buf_len b = 0 \<and> int (buf_cap b) \<le> limit) items"

definition pool_ok :: "BufferPool \<Rightarrow> bool" where
  "pool_ok p =
     (class_ok smallBufferSize (small p) \<and> class_ok mediumBufferSize (medium p)
      \<and> class_ok largeBufferSize (large p))"

section \<open>Credential state after a result\<close>

text \<open>
  \<open>updateAuthState\<close> is in the sources; the struct declarations it works on
  (\<open>Auth\<close>, \<open>ModelState\<close>, \<open>QuotaState\<close>, \<open>Result\<close>, \<open>Error\<close>) and the helpers it
  calls are not. The records below have the fields the function reads and writes, and
  the ones the specification's data model lists for a credential. An instant
  (\<open>time.Time\<close>) is a number of nanoseconds, the zero \<open>time.Time\<close> being \<open>zeroTime\<close>;
  a \<open>time.Duration\<close> is a signed number of nanoseconds and \<open>t.Add(d)\<close> is \<open>t + d\<close>.
\<close>

type_synonym time = int
type_synonym duration = int

definition zeroTime :: time where "zeroTime = 0"
definition Second :: duration where "Second = 1000000000"
definition Minute :: duration where "Minute = 60 * Second"
definition Hour :: duration where "Hour = 60 * Minute"

text \<open>
  Only \<open>StatusActive\<close> and \<open>StatusError\<close> occur in the function; the other values
  stand for the rest of the status type (its zero value among them).
\<close>

datatype Status = StatusUnknown | StatusActive | StatusError | StatusUnauthorized | StatusDisabled

datatype ErrorCategory =
    CategoryUnknown | CategoryUserError | CategoryAuthError | CategoryQuotaError | CategoryTransient

record Error =
  err_Message :: string
  err_HTTPStatus :: int

record QuotaState =
  Exceeded :: bool
  Reason :: string
  NextRecoverAt :: time
  BackoffLevel :: int

record ModelState =
  ms_Status :: Status
  ms_StatusMessage :: string
  ms_Unavailable :: bool
  ms_NextRetryAfter :: time
  ms_LastError :: "Error option"
  ms_Quota :: QuotaState
  ms_UpdatedAt :: time

record Auth =
  auth_ID :: string
  auth_Provider :: string
  auth_Status :: Status
  auth_StatusMessage :: string
  auth_LastError :: "Error option"
  auth_Attributes :: "string \<rightharpoonup> string"
  auth_ProxyURL :: string
  auth_CreatedAt :: time
  auth_UpdatedAt :: time
  auth_ModelStates :: "string \<rightharpoonup> ModelState"

record Result =
  res_AuthID :: string
  res_Provider :: string
  res_Model :: string
  res_Success :: bool
  res_RetryAfter :: "duration option"
  res_Error :: "Error option"

text \<open>
  The five out-parameters of \<open>updateAuthState\<close> (pointers to locals of the caller), and
  the calls it makes on the process-wide model registry, in order.
\<close>

record Signals =
  shouldResumeModel :: bool
  shouldSuspendModel :: bool
  suspendReason :: string
  clearModelQuota :: bool
  setModelQuota :: bool

datatype registry_call =
    ClearModelQuotaExceeded string string
  | ResumeClientModel string string
  | SetModelQuotaExceeded string string
  | SuspendClientModel string string string

text \<open>
  The helpers about which the specification says too little to write them down are
  arguments of the model: the error classifier, the two quota-group walks, the
  aggregation over the model states, and the two auth-level paths taken when the result
  names no model. A helper that receives the \<open>*Auth\<close> may change anything in it, so
  it returns the credential.
\<close>

record Helpers =
  CategorizeError :: "int \<Rightarrow> string \<Rightarrow> ErrorCategory"
  clearQuotaGroupOnSuccess :: "Auth \<Rightarrow> string \<Rightarrow> time \<Rightarrow> Auth \<times> string list"
  propagateQuotaToGroup :: "Auth \<Rightarrow> string \<Rightarrow> QuotaState \<Rightarrow> time \<Rightarrow> time \<Rightarrow> Auth \<times> string list"
  updateAggregatedAvailability :: "Auth \<Rightarrow> time \<Rightarrow> Auth"
  hasModelError :: "Auth \<Rightarrow> time \<Rightarrow> bool"
  clearAuthStateOnSuccess :: "Auth \<Rightarrow> time \<Rightarrow> Auth"
  applyAuthFailureState :: "Auth \<Rightarrow> Error option \<Rightarrow> duration option \<Rightarrow> time \<Rightarrow> Auth"

text \<open>
  Modelled from the spec: \<open>ensureModelState\<close> is not in the sources. The specification
  stores per-model health "inside the auth as a map from provider-model-id to
  ModelState"; the helper returns the entry of the model, creating it when absent. The
  new entry is the zero \<open>ModelState\<close>. The Go function returns a pointer into the map:
  what the caller writes through it is stored back with \<open>store_state\<close>.
\<close>

definition newModelState :: ModelState where
  "newModelState =
     \<lparr>ms_Status = StatusUnknown, ms_StatusMessage = [], ms_Unavailable = False,
      ms_NextRetryAfter = zeroTime, ms_LastError = None,
      ms_Quota = \<lparr>Exceeded = False, Reason = [], NextRecoverAt = zeroTime, BackoffLevel = 0\<rparr>,
      ms_UpdatedAt = zeroTime\<rparr>"

definition store_state :: "Auth \<Rightarrow> string \<Rightarrow> ModelState \<Rightarrow> Auth" where
  "store_state auth m st = auth\<lparr>auth_ModelStates := (auth_ModelStates auth)(m \<mapsto> st)\<rparr>"

definition ensureModelState :: "Auth \<Rightarrow> string \<Rightarrow> Auth \<times> ModelState" where
  "ensureModelState auth m =
     (case auth_ModelStates auth m of
        Some st \<Rightarrow> (auth, st)
      | None \<Rightarrow> (store_state auth m newModelState, newModelState))"

text \<open>
  Modelled from the spec: \<open>resetModelState\<close> is not in the sources. The specification
  says that after a success "the per-model unavailable flag is cleared and
  next_retry_after \<le> now", that the quota backoff ladder is "per model, resettable on
  success" and that a success clears the exceeded flag. The model clears the flag, sets
  the retry instant to the zero time and the quota state to its zero value, and leaves
  the fields the specification does not mention as they are.
\<close>

definition resetModelState :: "ModelState \<Rightarrow> time \<Rightarrow> ModelState" where
  "resetModelState st now =
     st\<lparr>ms_Unavailable := False,
        ms_NextRetryAfter := zeroTime,
        ms_Quota := \<lparr>Exceeded = False, Reason = [], NextRecoverAt = zeroTime, BackoffLevel = 0\<rparr>\<rparr>"

text \<open>
  Modelled from the spec: \<open>statusCodeFromResult\<close> is not in the sources. The
  specification keys the failure transitions "by HTTP status" of the result's error; a
  result without an error has status 0.
\<close>

definition statusCodeFromResult :: "Error option \<Rightarrow> int" where
  "statusCodeFromResult err = (case err of None \<Rightarrow> 0 | Some e \<Rightarrow> err_HTTPStatus e)"

text \<open>
  Modelled from the spec: \<open>cloneError\<close> is not in the sources; a copy of a value is
  the value.
\<close>

definition cloneError :: "Error \<Rightarrow> Error" where
  "cloneError e = e"

text \<open>
  Modelled from the spec: \<open>nextQuotaCooldown\<close> is not in the sources. The
  specification gives the ladder "level 0\<rightarrow>1 min, 1\<rightarrow>5 min, 2\<rightarrow>15 min, 3\<rightarrow>1 h, 4\<rightarrow>6 h
  (saturating)": the cooldown of the current level, and the next level, which stops at 4.
\<close>

definition nextQuotaCooldown :: "int \<Rightarrow> duration \<times> int" where
  "nextQuotaCooldown level =
     (if level \<le> 0 then (1 * Minute, 1)
      else if level = 1 then (5 * Minute, 2)
      else if level = 2 then (15 * Minute, 3)
      else if level = 3 then (1 * Hour, 4)
      else (6 * Hour, 4))"

text \<open>The switch on the status code, on the state, the signals and the credential.\<close>

definition suspend :: "string \<Rightarrow> Signals \<Rightarrow> Signals" where
  "suspend reason sig = sig\<lparr>suspendReason := reason, shouldSuspendModel := True\<rparr>"

definition quota_failure ::
  "Helpers \<Rightarrow> Auth \<Rightarrow> Result \<Rightarrow> time \<Rightarrow> ModelState \<Rightarrow> Signals
     \<Rightarrow> Auth \<times> Signals \<times> registry_call list" where
  "quota_failure H auth result now state sig =
     (let backoffLevel0 = BackoffLevel (ms_Quota state);
          (next, backoffLevel) =
            (case res_RetryAfter result of
               Some retryAfter \<Rightarrow> (now + retryAfter, backoffLevel0)
             | None \<Rightarrow>
                 (let (cooldown, nextLevel) = nextQuotaCooldown backoffLevel0
                  in (if cooldown > 0 then now + cooldown else zeroTime, nextLevel)));
          state' = state\<lparr>ms_NextRetryAfter := next,
                         ms_Quota := \<lparr>Exceeded = True, Reason = ''quota'',
                                      NextRecoverAt = next, BackoffLevel = backoffLevel\<rparr>\<rparr>;
          sig' = (suspend ''quota'' sig)\<lparr>setModelQuota := True\<rparr>;
          (auth', affectedModels) =
            propagateQuotaToGroup H (store_state auth (res_Model result) state')
              (res_Model result) (ms_Quota state') next now
      in (auth', sig',
          concat (map (\<lambda>affectedModel.
                    [SetModelQuotaExceeded (res_AuthID result) affectedModel,
                     SuspendClientModel (res_AuthID result) affectedModel ''quota_group''])
                  affectedModels)))"

definition status_switch ::
  "Helpers \<Rightarrow> Auth \<Rightarrow> Result \<Rightarrow> time \<Rightarrow> int \<Rightarrow> ModelState \<Rightarrow> Signals
     \<Rightarrow> Auth \<times> Signals \<times> registry_call list" where
  "status_switch H auth result now statusCode state sig =
     (if statusCode = 401 then
        (store_state auth (res_Model result) (state\<lparr>ms_NextRetryAfter := now + 30 * Minute\<rparr>),
         suspend ''unauthorized'' sig, [])
      else if statusCode = 402 \<or> statusCode = 403 then
        (store_state auth (res_Model result) (state\<lparr>ms_NextRetryAfter := now + 30 * Minute\<rparr>),
         suspend ''payment_required'' sig, [])
      else if statusCode = 404 then
        (store_state auth (res_Model result) (state\<lparr>ms_NextRetryAfter := now + 12 * Hour\<rparr>),
         suspend ''not_found'' sig, [])
      else if statusCode = 429 then quota_failure H auth result now state sig
      else if statusCode = 408 \<or> statusCode = 500 \<or> statusCode = 502 \<or> statusCode = 503
              \<or> statusCode = 504 then
        (store_state auth (res_Model result) (state\<lparr>ms_NextRetryAfter := now + 1 * Minute\<rparr>),
         sig, [])
      else
        (store_state auth (res_Model result) (state\<lparr>ms_NextRetryAfter := now + 30 * Second\<rparr>),
         sig, []))"

definition model_success ::
  "Helpers \<Rightarrow> Auth \<Rightarrow> Result \<Rightarrow> time \<Rightarrow> Signals \<Rightarrow> Auth \<times> Signals \<times> registry_call list" where
  "model_success H auth result now sig =
     (let (auth1, state) = ensureModelState auth (res_Model result);
          auth2 = store_state auth1 (res_Model result) (resetModelState state now);
          (auth3, clearedModels) = clearQuotaGroupOnSuccess H auth2 (res_Model result) now;
          calls = concat (map (\<lambda>clearedModel.
                    [ClearModelQuotaExceeded (res_AuthID result) clearedModel,
                     ResumeClientModel (res_AuthID result) clearedModel])
                  clearedModels);
          auth4 = updateAggregatedAvailability H auth3 now;
          auth5 = (if \<not> hasModelError H auth4 now
                   then auth4\<lparr>auth_LastError := None, auth_StatusMessage := [],
                              auth_Status := StatusActive\<rparr>
                   else auth4);
          auth6 = auth5\<lparr>auth_UpdatedAt := now\<rparr>
      in (auth6, sig\<lparr>shouldResumeModel := True, clearModelQuota := True\<rparr>, calls))"

definition model_failure ::
  "Helpers \<Rightarrow> Auth \<Rightarrow> Result \<Rightarrow> time \<Rightarrow> Signals \<Rightarrow> Auth \<times> Signals \<times> registry_call list" where
  "model_failure H auth result now sig =
     (let (auth1, state) = ensureModelState auth (res_Model result);
          statusCode = statusCodeFromResult (res_Error result);
          errMsg = (case res_Error result of Some e \<Rightarrow> err_Message e | None \<Rightarrow> []);
          category = CategorizeError H statusCode errMsg;
          state1 = (if category \<noteq> CategoryUserError
                    then state\<lparr>ms_Unavailable := True, ms_Status := StatusError\<rparr>
                    else state);
          state2 = state1\<lparr>ms_UpdatedAt := now\<rparr>;
          (state3, auth2) =
            (case res_Error result of
               Some e \<Rightarrow>
                 (if category \<noteq> CategoryUserError
                  then (state2\<lparr>ms_LastError := Some (cloneError e),
                               ms_StatusMessage := err_Message e\<rparr>,
                        auth1\<lparr>auth_LastError := Some (cloneError e),
                              auth_StatusMessage := err_Message e\<rparr>)
                  else (state2, auth1))
             | None \<Rightarrow> (state2, auth1));
          (auth3, sig', calls) = status_switch H auth2 result now statusCode state3 sig;
          auth4 = (if category \<noteq> CategoryUserError
                   then auth3\<lparr>auth_Status := StatusError\<rparr>
                   else auth3);
          auth5 = auth4\<lparr>auth_UpdatedAt := now\<rparr>
      in (updateAggregatedAvailability H auth5 now, sig', calls))"

definition updateAuthState ::
  "Helpers \<Rightarrow> Auth \<Rightarrow> Result \<Rightarrow> time \<Rightarrow> Signals \<Rightarrow> Auth \<times> Signals \<times> registry_call list" where
  "updateAuthState H auth result now sig =
     (if res_Success result then
        (if res_Model result \<noteq> [] then model_success H auth result now sig
         else (clearAuthStateOnSuccess H auth now, sig, []))
      else
        (if res_Model result \<noteq> [] then model_failure H auth result now sig
         else (applyAuthFailureState H auth (res_Error result) (res_RetryAfter result) now,
               sig, [])))"

text \<open>
  What the claims say about the state of one model, as predicates on the credential: the
  model is available at \<open>now\<close> (flag clear, retry instant not after \<open>now\<close>); its
  unavailable flag is set; it is in quota cooldown until \<open>t\<close>.
\<close>

definition model_available :: "Auth \<Rightarrow> string \<Rightarrow> time \<Rightarrow> bool" where
  "model_available auth m now =
     (case auth_ModelStates auth m of
        None \<Rightarrow> False
      | Some st \<Rightarrow> \<not> ms_Unavailable st \<and> ms_NextRetryAfter st \<le> now)"

definition model_unavailable :: "Auth \<Rightarrow> string \<Rightarrow> bool" where
  "model_unavailable auth m =
     (case auth_ModelStates auth m of None \<Rightarrow> False | Some st \<Rightarrow> ms_Unavailable st)"

definition quota_cooldown :: "Auth \<Rightarrow> string \<Rightarrow> time \<Rightarrow> bool" where
  "quota_cooldown auth m t =
     (case auth_ModelStates auth m of
        None \<Rightarrow> False
      | Some st \<Rightarrow> Exceeded (ms_Quota st) \<and> NextRecoverAt (ms_Quota st) = t
                   \<and> ms_NextRetryAfter st = t)"

text \<open>
  An instance of the helpers for running the function on concrete inputs: no quota
  groups, no aggregation, status 400 classified as a user error.
\<close>

definition plain_helpers :: Helpers where
  "plain_helpers =
     \<lparr>CategorizeError = (\<lambda>code msg. if code = 400 then CategoryUserError
                                    else if code = 429 then CategoryQuotaError
                                    else CategoryUnknown),
      clearQuotaGroupOnSuccess = (\<lambda>auth m now. (auth, [])),
      propagateQuotaToGroup = (\<lambda>auth m quota next now. (auth, [])),
      updateAggregatedAvailability = (\<lambda>auth now. auth),
      hasModelError = (\<lambda>auth now. False),
      clearAuthStateOnSuccess = (\<lambda>auth now. auth\<lparr>auth_UpdatedAt := now\<rparr>),
      applyAuthFailureState = (\<lambda>auth err retryAfter now. auth\<lparr>auth_UpdatedAt := now\<rparr>)\<rparr>"

definition demo_auth :: Auth where
  "demo_auth =
     \<lparr>auth_ID = ''auth-1'', auth_Provider = ''claude'', auth_Status = StatusActive,
      auth_StatusMessage = [], auth_LastError = None, auth_Attributes = Map.empty,
      auth_ProxyURL = [], auth_CreatedAt = 1000, auth_UpdatedAt = 2000,
      auth_ModelStates = Map.empty\<rparr>"

definition no_signals :: Signals where
  "no_signals =
     \<lparr>shouldResumeModel = False, shouldSuspendModel = False, suspendReason = [],
      clearModelQuota = False, setModelQuota = False\<rparr>"

definition demo_result :: "bool \<Rightarrow> duration option \<Rightarrow> Error option \<Rightarrow> Result" where
  "demo_result ok retryAfter err =
     \<lparr>res_AuthID = ''auth-1'', res_Provider = ''claude'', res_Model = ''claude-sonnet-4-5'',
      res_Success = ok, res_RetryAfter = retryAfter, res_Error = err\<rparr>"

text \<open>The three auth-level fields that the user-error claim is about.\<close>

definition auth_verdict :: "Auth \<Rightarrow> Status \<times> Error option \<times> string" where
  "auth_verdict auth = (auth_Status auth, auth_LastError auth, auth_StatusMessage auth)"

section \<open>Preprocess\<close>

text \<open>
  The request as the preprocess passes see it: the model name, \<open>MaxTokens\<close> and
  \<open>CandidateCount\<close> (\<open>*int\<close>), the thinking block with its \<open>*int32\<close> budget, and the
  tool definitions that the provider defaults clean. The registry entry of a model
  carries the two output limits and, for a thinking model, the budget range.

  Go's \<open>int\<close> is 64 bits wide and \<open>int32\<close> 32: the one sum and the one conversion of
  the code are written with their wrap-around, and \<open>/\<close> truncates towards zero.
\<close>

definition int32 :: "int \<Rightarrow> int" where
  "int32 x = (x + 2 ^ 31) mod 2 ^ 32 - 2 ^ 31"

definition int64 :: "int \<Rightarrow> int" where
  "int64 x = (x + 2 ^ 63) mod 2 ^ 64 - 2 ^ 63"

definition go_quot :: "int \<Rightarrow> int \<Rightarrow> int" where
  "go_quot a b = (if (a < 0) = (b < 0) then \<bar>a\<bar> div \<bar>b\<bar> else - (\<bar>a\<bar> div \<bar>b\<bar>))"

record ThinkingSupport =
  ts_Min :: int
  ts_Max :: int
  ts_ZeroAllowed :: bool
  ts_DynamicAllowed :: bool

record ModelInfo =
  OutputTokenLimit :: int
  MaxCompletionTokens :: int
  info_Thinking :: "ThinkingSupport option"

record ThinkingConfig =
  IncludeThoughts :: bool
  ThinkingBudget :: "int option"
  Summary :: string
  Effort :: string

record ToolDefinition =
  tool_Name :: string
  tool_Description :: string
  tool_Parameters :: json

record UnifiedChatRequest =
  req_Model :: string
  req_Messages :: "Message list"
  req_Tools :: "ToolDefinition list"
  req_MaxTokens :: "int option"
  req_CandidateCount :: "int option"
  req_Thinking :: "ThinkingConfig option"

text \<open>
  What the passes take from other packages, none of it in the sources: the registry
  lookup \<open>GetModelInfo\<close>, the test \<open>ir.IsClaudeModel\<close>, the constant
  \<open>ir.ClaudeDefaultMaxTokens\<close> and \<open>ir.CleanToolsForAntigravityClaude\<close>, taken to
  rewrite the tool definitions of the request.
\<close>

record Registry =
  GetModelInfo :: "string \<Rightarrow> ModelInfo option"
  IsClaudeModel :: "string \<Rightarrow> bool"
  ClaudeDefaultMaxTokens :: int
  CleanToolsForAntigravityClaude :: "ToolDefinition list \<Rightarrow> ToolDefinition list"

definition HasSuffix :: "string \<Rightarrow> string \<Rightarrow> bool" where
  "HasSuffix s suffix =
     (length s \<ge> length suffix \<and> drop (length s - length suffix) s = suffix)"

subsection \<open>limits.go\<close>

definition clampMaxTokens :: "UnifiedChatRequest \<Rightarrow> ModelInfo option \<Rightarrow> UnifiedChatRequest" where
  "clampMaxTokens req info =
     (case req_MaxTokens req of
        None \<Rightarrow> req
      | Some maxTokens \<Rightarrow>
          (case info of
             None \<Rightarrow> req
           | Some i \<Rightarrow>
               (let limit = (if OutputTokenLimit i = 0 then MaxCompletionTokens i
                             else OutputTokenLimit i)
                in if limit > 0 \<and> maxTokens > limit then req\<lparr>req_MaxTokens := Some limit\<rparr>
                   else req)))"

definition clampCandidateCount :: "UnifiedChatRequest \<Rightarrow> ModelInfo option \<Rightarrow> UnifiedChatRequest" where
  "clampCandidateCount req info =
     (case req_CandidateCount req of
        None \<Rightarrow> req
      | Some n \<Rightarrow>
          (let n1 = (if n < 1 then 1 else n);
               maxCandidates = 8;
               n2 = (if n1 > maxCandidates then maxCandidates else n1)
           in req\<lparr>req_CandidateCount := Some n2\<rparr>))"

definition applyLimits :: "UnifiedChatRequest \<Rightarrow> ModelInfo option \<Rightarrow> UnifiedChatRequest" where
  "applyLimits req info = clampCandidateCount (clampMaxTokens req info) info"

subsection \<open>defaults.go\<close>

definition applyClaudeDefaults :: "Registry \<Rightarrow> UnifiedChatRequest \<Rightarrow> UnifiedChatRequest" where
  "applyClaudeDefaults R req =
     (if \<not> IsClaudeModel R (req_Model req) then req
      else
        (let req1 = (if req_MaxTokens req = None \<or> req_MaxTokens req = Some 0
                     then req\<lparr>req_MaxTokens := Some (ClaudeDefaultMaxTokens R)\<rparr>
                     else req)
         in req1\<lparr>req_Tools := CleanToolsForAntigravityClaude R (req_Tools req1)\<rparr>))"

definition applyProviderDefaults ::
  "Registry \<Rightarrow> UnifiedChatRequest \<Rightarrow> ModelInfo option \<Rightarrow> UnifiedChatRequest" where
  "applyProviderDefaults R req info = applyClaudeDefaults R req"

subsection \<open>thinking.go\<close>

definition promoteToThinkingModel ::
  "Registry \<Rightarrow> UnifiedChatRequest \<Rightarrow> ModelInfo option \<Rightarrow> UnifiedChatRequest \<times> bool" where
  "promoteToThinkingModel R req info =
     (case req_Thinking req of
        None \<Rightarrow> (req, False)
      | Some thinking \<Rightarrow>
          (if \<not> IsClaudeModel R (req_Model req) then (req, False)
           else if HasSuffix (req_Model req) ''-thinking'' then
             (req\<lparr>req_Thinking :=
                    Some (thinking\<lparr>ThinkingBudget :=
                                      (case ThinkingBudget thinking of
                                         None \<Rightarrow> Some (int32 1024)
                                       | Some b \<Rightarrow> Some b),
                                    IncludeThoughts := True\<rparr>)\<rparr>,
              False)
           else
             (let thinkingModel = req_Model req @ ''-thinking''
              in if GetModelInfo R thinkingModel \<noteq> None
                 then (req\<lparr>req_Model := thinkingModel\<rparr>, True)
                 else (req, False))))"

definition clamp_budget :: "ThinkingSupport \<Rightarrow> int \<Rightarrow> int" where
  "clamp_budget ts budget =
     (let budget1 = (if budget < ts_Min ts then ts_Min ts else budget)
      in if budget1 > ts_Max ts then ts_Max ts else budget1)"

definition resolve_budget :: "ThinkingSupport \<Rightarrow> int \<Rightarrow> int" where
  "resolve_budget ts budget =
     (let budget1 = (if budget = -1 \<and> \<not> ts_DynamicAllowed ts
                     then go_quot (int64 (ts_Min ts + ts_Max ts)) 2
                     else budget);
          budget2 = (if budget1 = 0 \<and> \<not> ts_ZeroAllowed ts then ts_Min ts else budget1);
          budget3 = (if budget2 > 0 then clamp_budget ts budget2 else budget2)
      in int32 budget3)"

definition normalizeThinkingBudget ::
  "UnifiedChatRequest \<Rightarrow> ModelInfo option \<Rightarrow> UnifiedChatRequest" where
  "normalizeThinkingBudget req info =
     (case req_Thinking req of
        None \<Rightarrow> req
      | Some thinking \<Rightarrow>
          (case ThinkingBudget thinking of
             None \<Rightarrow> req
           | Some b \<Rightarrow>
               (case info of
                  None \<Rightarrow> req
                | Some i \<Rightarrow>
                    (case info_Thinking i of
                       None \<Rightarrow> req
                     | Some ts \<Rightarrow>
                         req\<lparr>req_Thinking :=
                               Some (thinking\<lparr>ThinkingBudget := Some (resolve_budget ts b)\<rparr>)\<rparr>))))"

definition applyThinkingNormalization ::
  "Registry \<Rightarrow> UnifiedChatRequest \<Rightarrow> ModelInfo option \<Rightarrow> UnifiedChatRequest" where
  "applyThinkingNormalization R req info =
     normalizeThinkingBudget (fst (promoteToThinkingModel R req info)) info"

text \<open>
  Modelled from the spec: the function that runs the passes is not in the sources. The
  specification has preprocess look the model up in the registry and run, in this
  order, the limits clamp (\<open>max_tokens\<close>, then \<open>candidate_count\<close>), the thinking
  normalisation and the provider defaults.
\<close>

definition preprocess :: "Registry \<Rightarrow> UnifiedChatRequest \<Rightarrow> UnifiedChatRequest" where
  "preprocess R req =
     (let info = GetModelInfo R (req_Model req)
      in applyProviderDefaults R (applyThinkingNormalization R (applyLimits req info) info) info)"

text \<open>
  The four conditions under which the first pass leaves nothing for a second one:
  the request is not promoted to a thinking model; its budget is an \<open>int32\<close> value; the
  budget range of its model is a range of non-negative \<open>int32\<close> values; the default
  \<open>max_tokens\<close> of a Claude model is within the model's limit.
\<close>

definition promotes :: "Registry \<Rightarrow> UnifiedChatRequest \<Rightarrow> bool" where
  "promotes R req = snd (promoteToThinkingModel R req (GetModelInfo R (req_Model req)))"

definition is_int32 :: "int \<Rightarrow> bool" where
  "is_int32 x = (- (2 ^ 31) \<le> x \<and> x < 2 ^ 31)"

definition budget_is_int32 :: "UnifiedChatRequest \<Rightarrow> bool" where
  "budget_is_int32 req =
     (case req_Thinking req of
        None \<Rightarrow> True
      | Some thinking \<Rightarrow>
          (case ThinkingBudget thinking of None \<Rightarrow> True | Some b \<Rightarrow> is_int32 b))"

definition range_ok :: "ThinkingSupport \<Rightarrow> bool" where
  "range_ok ts = (0 \<le> ts_Min ts \<and> ts_Min ts \<le> ts_Max ts \<and> ts_Max ts < 2 ^ 31)"

definition info_range_ok :: "ModelInfo option \<Rightarrow> bool" where
  "info_range_ok info =
     (case info of
        None \<Rightarrow> True
      | Some i \<Rightarrow> (case info_Thinking i of None \<Rightarrow> True | Some ts \<Rightarrow> range_ok ts))"

definition default_within_limit :: "Registry \<Rightarrow> ModelInfo option \<Rightarrow> bool" where
  "default_within_limit R info =
     (case info of
        None \<Rightarrow> True
      | Some i \<Rightarrow>
          (let limit = (if OutputTokenLimit i = 0 then MaxCompletionTokens i
                        else OutputTokenLimit i)
           in limit \<le> 0 \<or> ClaudeDefaultMaxTokens R \<le> limit))"

text \<open>A registry and a request for running the passes on concrete inputs.\<close>

definition demo_registry :: Registry where
  "demo_registry =
     \<lparr>GetModelInfo = map_of
        [(''claude-sonnet-4-5'',
            \<lparr>OutputTokenLimit = 64000, MaxCompletionTokens = 0, info_Thinking = None\<rparr>),
         (''claude-sonnet-4-5-thinking'',
            \<lparr>OutputTokenLimit = 64000, MaxCompletionTokens = 0,
             info_Thinking = Some \<lparr>ts_Min = 1024, ts_Max = 32768, ts_ZeroAllowed = False,
                                    ts_DynamicAllowed = False\<rparr>\<rparr>)],
      IsClaudeModel = (\<lambda>m. has_prefix m ''claude''),
      ClaudeDefaultMaxTokens = 32000,
      CleanToolsForAntigravityClaude = (\<lambda>tools. tools)\<rparr>"

definition demo_request :: "string \<Rightarrow> int option \<Rightarrow> UnifiedChatRequest" where
  "demo_request m budget =
     \<lparr>req_Model = m, req_Messages = [], req_Tools = [], req_MaxTokens = Some 100000,
      req_CandidateCount = Some 100,
      req_Thinking = Some \<lparr>IncludeThoughts = False, ThinkingBudget = budget,
                            Summary = [], Effort = []\<rparr>\<rparr>"

text \<open>
  The passes field by field, for the proofs: what the limits clamp makes of
  \<open>MaxTokens\<close> and of \<open>CandidateCount\<close>, and what the Claude defaults make of
  \<open>MaxTokens\<close>.
\<close>

definition clamped_max_tokens :: "ModelInfo option \<Rightarrow> int option \<Rightarrow> int option" where
  "clamped_max_tokens info mt =
     (case mt of
        None \<Rightarrow> None
      | Some maxTokens \<Rightarrow>
          (case info of
             None \<Rightarrow> Some maxTokens
           | Some i \<Rightarrow>
               (let limit = (if OutputTokenLimit i = 0 then MaxCompletionTokens i
                             else OutputTokenLimit i)
                in if limit > 0 \<and> maxTokens > limit then Some limit else Some maxTokens)))"

definition clamped_candidate_count :: "int option \<Rightarrow> int option" where
  "clamped_candidate_count cc =
     (case cc of
        None \<Rightarrow> None
      | Some n \<Rightarrow> Some (if (if n < 1 then 1 else n) > 8 then 8 else (if n < 1 then 1 else n)))"

definition defaulted_max_tokens :: "Registry \<Rightarrow> string \<Rightarrow> int option \<Rightarrow> int option" where
  "defaulted_max_tokens R m mt =
     (if \<not> IsClaudeModel R m then mt
      else if mt = None \<or> mt = Some 0 then Some (ClaudeDefaultMaxTokens R)
      else mt)"

definition midpoint :: "ThinkingSupport \<Rightarrow> int" where
  "midpoint ts = go_quot (ts_Min ts + ts_Max ts) 2"

text \<open>\<open>resolve_budget\<close> without the wrap-around, for ranges and budgets that fit.\<close>

definition resolve_plain :: "ThinkingSupport \<Rightarrow> int \<Rightarrow> int" where
  "resolve_plain ts b =
     (let b1 = (if b = -1 \<and> \<not> ts_DynamicAllowed ts then midpoint ts else b);
          b2 = (if b1 = 0 \<and> \<not> ts_ZeroAllowed ts then ts_Min ts else b1)
      in if b2 > 0 then clamp_budget ts b2 else b2)"

section \<open>Properties of the tool-call identifier conversion\<close>

lemma has_prefix_toolu:
  "length s > 6 \<Longrightarrow>
     has_prefix s ''toolu_'' =
     (s ! 0 = CHR ''t'' \<and> s ! 1 = CHR ''o'' \<and> s ! 2 = CHR ''o'' \<and> s ! 3 = CHR ''l''
        \<and> s ! 4 = CHR ''u'' \<and> s ! 5 = CHR ''_'')"
  by (cases s; cases "tl s"; cases "tl (tl s)"; cases "tl (tl (tl s))";
      cases "tl (tl (tl (tl s)))"; cases "tl (tl (tl (tl (tl s))))")
     (auto simp: has_prefix_def)

lemma has_prefix_call:
  "length s > 5 \<Longrightarrow>
     has_prefix s ''call_'' =
     (s ! 0 = CHR ''c'' \<and> s ! 1 = CHR ''a'' \<and> s ! 2 = CHR ''l'' \<and> s ! 3 = CHR ''l''
        \<and> s ! 4 = CHR ''_'')"
  by (cases s; cases "tl s"; cases "tl (tl s)"; cases "tl (tl (tl s))";
      cases "tl (tl (tl (tl s)))") (auto simp: has_prefix_def)

text \<open>
  C4 (as stated) fails: the bare prefix \<open>call_\<close> is not replaced but gets
  \<open>toolu_\<close> prepended, while the stated rule yields \<open>toolu_\<close>.
\<close>

theorem toClaudeToolID_bare_call_counterexample:
  "toClaudeToolID ''call_'' = ''toolu_call_'' \<and> toClaudeToolID_rule ''call_'' = ''toolu_''
   \<and> toClaudeToolID ''call_'' \<noteq> toClaudeToolID_rule ''call_''"
  by (simp add: toClaudeToolID_def toClaudeToolID_rule_def has_prefix_def)

text \<open>
  C4 (amended): an id of more than six bytes that starts with \<open>toolu_\<close> is returned
  unchanged; otherwise an id of more than five bytes that starts with \<open>call_\<close> has that
  prefix replaced by \<open>toolu_\<close>; every other id, the bare prefixes included, has
  \<open>toolu_\<close> prepended.
\<close>

theorem toClaudeToolID_guarded_rule:
  "toClaudeToolID ident = toClaudeToolID_guarded ident"
proof (cases "length ident > 6")
  case True
  then have "length ident > 5" by simp
  from has_prefix_toolu [OF True] has_prefix_call [OF this] True
  show ?thesis
    unfolding toClaudeToolID_def toClaudeToolID_guarded_def by presburger
next
  case long: False
  show ?thesis
  proof (cases "length ident > 5")
    case True
    from has_prefix_call [OF True] long True show ?thesis
      unfolding toClaudeToolID_def toClaudeToolID_guarded_def by presburger
  next
    case False
    with long show ?thesis
      unfolding toClaudeToolID_def toClaudeToolID_guarded_def by presburger
  qed
qed

section \<open>Properties of the response builder\<close>

lemma GetLastMessage_total: "\<exists>r. GetLastMessage b = Inr r"
  by (cases "messages b") (simp_all add: GetLastMessage_def slice_index_def)

lemma GetLastMessage_empty: "GetLastMessage (NewResponseBuilder [] u m) = Inr None"
  by (simp add: GetLastMessage_def NewResponseBuilder_def)

lemma GetLastMessage_last:
  "ms \<noteq> [] \<Longrightarrow> GetLastMessage (NewResponseBuilder ms u m) = Inr (Some (last ms))"
proof -
  assume ne: "ms \<noteq> []"
  then have "nat (int (length ms) - 1) = length ms - 1"
    by (cases ms) simp_all
  with ne show ?thesis
    by (simp add: GetLastMessage_def NewResponseBuilder_def slice_index_def last_conv_nth)
qed

text \<open>
  C10: a builder made from an empty message list answers every accessor without a panic
  and with the empty result: no last message, no content, no tool calls, the empty text,
  and empty Claude and Gemini part lists.
\<close>

theorem ResponseBuilder_empty_messages:
  "GetLastMessage (NewResponseBuilder [] u m) = Inr None
   \<and> HasContent (NewResponseBuilder [] u m) = Inr False
   \<and> HasToolCalls (NewResponseBuilder [] u m) = Inr False
   \<and> GetTextContent CombineTextParts (NewResponseBuilder [] u m) = Inr []
   \<and> BuildClaudeContentParts unmarshal (NewResponseBuilder [] u m) = Inr []
   \<and> BuildGeminiContentParts ParseToolCallArgs (NewResponseBuilder [] u m) = Inr []"
  by (simp add: GetLastMessage_empty HasContent_def HasToolCalls_def GetToolCalls_def
      GetTextContent_def BuildClaudeContentParts_def BuildGeminiContentParts_def)

section \<open>Properties of the model-family resolver\<close>

lemma sorted_hd_is_Min: "sorted xs \<Longrightarrow> xs \<noteq> [] \<Longrightarrow> hd xs = Min (set xs)"
  by (cases xs) (auto intro!: Min_eqI [symmetric])

lemma group_append_keys: "fst ` set (group_append k v g) = insert k (fst ` set g)"
  by (induction k v g rule: group_append.induct) auto

lemma group_append_lookup:
  "group_lookup (group_append k v g) k' =
     (if k' = k then group_lookup g k' @ [v] else group_lookup g k')"
  by (induction k v g rule: group_append.induct) (auto simp: group_lookup_def)

lemma group_step_keys:
  "fst ` set (group_step ps g m) =
     fst ` set g \<union> Priority ` set (available_members [m] ps)"
  by (simp add: group_step_def group_append_keys available_members_def)

lemma group_step_lookup:
  "group_lookup (group_step ps g m) k =
     group_lookup g k @ filter (\<lambda>m. Priority m = k) (available_members [m] ps)"
  by (simp add: group_step_def group_append_lookup available_members_def)

lemma available_members_Cons:
  "available_members (m # family) ps = available_members [m] ps @ available_members family ps"
  by (simp add: available_members_def)

lemma foldl_group_keys:
  "fst ` set (foldl (group_step ps) g family) =
     fst ` set g \<union> Priority ` set (available_members family ps)"
proof (induction family arbitrary: g)
  case Nil
  show ?case by (simp add: available_members_def)
next
  case (Cons m family)
  have "fst ` set (foldl (group_step ps) g (m # family)) =
        fst ` set (group_step ps g m) \<union> Priority ` set (available_members family ps)"
    by (simp add: Cons.IH)
  also have "\<dots> = fst ` set g \<union> Priority ` set (available_members (m # family) ps)"
    unfolding group_step_keys available_members_Cons [of m family] by auto
  finally show ?case .
qed

lemma foldl_group_lookup:
  "group_lookup (foldl (group_step ps) g family) k =
     group_lookup g k @ filter (\<lambda>m. Priority m = k) (available_members family ps)"
proof (induction family arbitrary: g)
  case Nil
  show ?case by (simp add: available_members_def)
next
  case (Cons m family)
  have "group_lookup (foldl (group_step ps) g (m # family)) k =
        group_lookup (group_step ps g m) k
          @ filter (\<lambda>m. Priority m = k) (available_members family ps)"
    by (simp add: Cons.IH)
  also have "\<dots> = group_lookup g k
          @ filter (\<lambda>m. Priority m = k) (available_members (m # family) ps)"
    unfolding group_step_lookup available_members_Cons [of m family] by simp
  finally show ?case .
qed

lemma group_lookup_Nil: "group_lookup [] k = []"
  by (simp add: group_lookup_def)

lemma priorityGroups_keys:
  "fst ` set (priorityGroups family ps) = Priority ` set (available_members family ps)"
  by (simp add: priorityGroups_def foldl_group_keys)

lemma priorityGroups_lookup:
  "group_lookup (priorityGroups family ps) k =
     filter (\<lambda>m. Priority m = k) (available_members family ps)"
  by (simp add: priorityGroups_def foldl_group_lookup group_lookup_Nil)

lemma priorityGroups_empty:
  "(priorityGroups family ps = []) = (available_members family ps = [])"
proof -
  have "(priorityGroups family ps = []) = (fst ` set (priorityGroups family ps) = {})"
    by simp
  also have "\<dots> = (available_members family ps = [])"
    by (simp add: priorityGroups_keys)
  finally show ?thesis .
qed

lemma select_member_in:
  assumes "\<And>n. 0 < n \<Longrightarrow> intn n < n" and "ms \<noteq> []"
  shows "\<exists>m \<in> set ms. select_member intn ms = Inr m"
proof (cases "length ms = 1")
  case True
  then show ?thesis
    using assms(2) by (cases ms) (simp_all add: select_member_def slice_index_def)
next
  case False
  from assms(2) have pos: "0 < length ms" by simp
  from assms(1) [OF pos] have lt: "intn (length ms) < length ms" .
  then have "select_member intn ms = Inr (ms ! intn (length ms))"
    using False pos by (simp add: select_member_def rand_Intn_def slice_index_def)
  with lt show ?thesis by auto
qed

lemma resolve_unavailable:
  assumes "map_of ModelFamilies cid = Some family"
    and "available_members family ps = []"
  shows "ResolveModelFamily intn cid ps = Inr ([], cid, False)"
  using assms by (simp add: ResolveModelFamily_def priorityGroups_empty)

lemma resolve_available:
  assumes fam: "map_of ModelFamilies cid = Some family"
    and intn: "\<And>n. 0 < n \<Longrightarrow> intn n < n"
    and av: "available_members family ps \<noteq> []"
  shows "\<exists>m \<in> set (available_members family ps).
           ResolveModelFamily intn cid ps = Inr (Provider m, ModelID m, True)
           \<and> Priority m = Min (Priority ` set (available_members family ps))"
proof -
  let ?A = "available_members family ps"
  let ?G = "priorityGroups family ps"
  let ?keys = "sort (map fst ?G)"
  from av have G: "?G \<noteq> []" by (simp add: priorityGroups_empty)
  have "length ?keys = length ?G" by simp
  with G have keys: "?keys \<noteq> []" by (metis length_0_conv)
  have "hd ?keys = Min (set ?keys)"
    by (rule sorted_hd_is_Min) (simp_all add: keys)
  also have "set ?keys = Priority ` set ?A"
    using priorityGroups_keys [of family ps] by simp
  finally have hd: "hd ?keys = Min (Priority ` set ?A)" .
  let ?p = "Min (Priority ` set ?A)"
  from keys have idx: "slice_index ?keys 0 = Inr ?p"
    using hd by (cases ?keys) (simp_all add: slice_index_def)
  have "?p \<in> Priority ` set ?A"
    using av by (intro Min_in) simp_all
  then have ne: "filter (\<lambda>m. Priority m = ?p) ?A \<noteq> []"
    by (auto simp: filter_empty_conv)
  from select_member_in [OF intn ne]
  obtain m where m: "m \<in> set (filter (\<lambda>m. Priority m = ?p) ?A)"
    and sel: "select_member intn (filter (\<lambda>m. Priority m = ?p) ?A) = Inr m"
    by blast
  have "ResolveModelFamily intn cid ps = Inr (Provider m, ModelID m, True)"
    using fam G idx sel by (simp add: ResolveModelFamily_def priorityGroups_lookup)
  with m show ?thesis by auto
qed

text \<open>
  C8: for a canonical id of the family table, \<open>ResolveModelFamily\<close> does not panic;
  when some member's provider is available it returns the provider and model id of a
  member of the family whose provider is available and whose priority is the least
  priority number among the available members; when none is, it reports not found.
  The random draw is any function that keeps the promise of \<open>rand.Intn\<close>.
\<close>

theorem ResolveModelFamily_lowest_priority:
  assumes "map_of ModelFamilies canonicalID = Some family"
    and "\<And>n. 0 < n \<Longrightarrow> intn n < n"
  shows "if (\<exists>x \<in> set family. Provider x \<in> set ps)
         then (\<exists>m \<in> set family. Provider m \<in> set ps
                 \<and> Priority m = Min {Priority x | x. x \<in> set family \<and> Provider x \<in> set ps}
                 \<and> ResolveModelFamily intn canonicalID ps = Inr (Provider m, ModelID m, True))
         else ResolveModelFamily intn canonicalID ps = Inr ([], canonicalID, False)"
proof (cases "\<exists>x \<in> set family. Provider x \<in> set ps")
  case True
  then have av: "available_members family ps \<noteq> []"
    by (auto simp: available_members_def filter_empty_conv)
  have eq: "Priority ` set (available_members family ps)
            = {Priority x | x. x \<in> set family \<and> Provider x \<in> set ps}"
    by (auto simp: available_members_def)
  from resolve_available [OF assms av]
  obtain m where "m \<in> set (available_members family ps)"
    and "ResolveModelFamily intn canonicalID ps = Inr (Provider m, ModelID m, True)"
    and "Priority m = Min (Priority ` set (available_members family ps))"
    by blast
  then have "m \<in> set family \<and> Provider m \<in> set ps
      \<and> Priority m = Min {Priority x | x. x \<in> set family \<and> Provider x \<in> set ps}
      \<and> ResolveModelFamily intn canonicalID ps = Inr (Provider m, ModelID m, True)"
    unfolding eq by (simp add: available_members_def)
  then have "\<exists>m \<in> set family. Provider m \<in> set ps
      \<and> Priority m = Min {Priority x | x. x \<in> set family \<and> Provider x \<in> set ps}
      \<and> ResolveModelFamily intn canonicalID ps = Inr (Provider m, ModelID m, True)"
    by blast
  with True show ?thesis by simp
next
  case False
  then have "available_members family ps = []"
    by (auto simp: available_members_def filter_empty_conv)
  from resolve_unavailable [OF assms(1) this] False show ?thesis by simp
qed

theorem ResolveModelFamily_lowest_priority_witness:
  "(\<exists>m::FamilyMember.
       ResolveModelFamily (\<lambda>n. n - 1) ''claude-sonnet-4-5'' [''claude'', ''antigravity'']
         = Inr (Provider m, ModelID m, True))
   \<and> ResolveModelFamily (\<lambda>n. n - 1) ''claude-sonnet-4-5'' [''openai'']
        = Inr ([], ''claude-sonnet-4-5'', False)"
proof -
  let ?family = "[\<lparr>Provider = ''kiro'', ModelID = ''claude-sonnet-4-5'', Priority = 1\<rparr>,
           \<lparr>Provider = ''antigravity'', ModelID = ''gemini-claude-sonnet-4-5'', Priority = 1\<rparr>,
           \<lparr>Provider = ''claude'', ModelID = ''claude-sonnet-4-5-20250929'', Priority = 2\<rparr>]"
  have fam: "map_of ModelFamilies ''claude-sonnet-4-5'' = Some ?family"
    by (simp add: ModelFamilies_def)
  have draw: "\<And>n::nat. 0 < n \<Longrightarrow> n - 1 < n" by simp
  have yes: "\<exists>x \<in> set ?family. Provider x \<in> set [''claude'', ''antigravity'']" by simp
  have no: "\<not> (\<exists>x \<in> set ?family. Provider x \<in> set [''openai''])" by simp
  have "if (\<exists>x \<in> set ?family. Provider x \<in> set [''claude'', ''antigravity''])
        then (\<exists>m \<in> set ?family. Provider m \<in> set [''claude'', ''antigravity'']
                \<and> Priority m = Min {Priority x | x. x \<in> set ?family
                                      \<and> Provider x \<in> set [''claude'', ''antigravity'']}
                \<and> ResolveModelFamily (\<lambda>n. n - 1) ''claude-sonnet-4-5'' [''claude'', ''antigravity'']
                    = Inr (Provider m, ModelID m, True))
        else ResolveModelFamily (\<lambda>n. n - 1) ''claude-sonnet-4-5'' [''claude'', ''antigravity'']
               = Inr ([], ''claude-sonnet-4-5'', False)"
    by (rule ResolveModelFamily_lowest_priority [OF fam]) (rule draw)
  with yes
  have r1: "\<exists>m::FamilyMember. ResolveModelFamily (\<lambda>n. n - 1) ''claude-sonnet-4-5'' [''claude'', ''antigravity'']
            = Inr (Provider m, ModelID m, True)"
    by (simp only: if_True) (elim bexE conjE, rule exI, assumption)
  have "if (\<exists>x \<in> set ?family. Provider x \<in> set [''openai''])
        then (\<exists>m \<in> set ?family. Provider m \<in> set [''openai'']
                \<and> Priority m = Min {Priority x | x. x \<in> set ?family
                                      \<and> Provider x \<in> set [''openai'']}
                \<and> ResolveModelFamily (\<lambda>n. n - 1) ''claude-sonnet-4-5'' [''openai'']
                    = Inr (Provider m, ModelID m, True))
        else ResolveModelFamily (\<lambda>n. n - 1) ''claude-sonnet-4-5'' [''openai'']
               = Inr ([], ''claude-sonnet-4-5'', False)"
    by (rule ResolveModelFamily_lowest_priority [OF fam]) (rule draw)
  with no
  have r2: "ResolveModelFamily (\<lambda>n. n - 1) ''claude-sonnet-4-5'' [''openai'']
        = Inr ([], ''claude-sonnet-4-5'', False)"
    by (simp only: if_False)
  from r1 r2 show ?thesis by (intro conjI)
qed

section \<open>Properties of the buffer pool\<close>

lemma Get_Fresh_capacity:
  "buf_len (fst (Get p Fresh sz)) = 0 \<and> sz \<le> int (buf_cap (fst (Get p Fresh sz)))"
  by (simp add: Get_def pool_Get_def make_buffer_def smallBufferSize_def mediumBufferSize_def
      largeBufferSize_def)

lemma Put_truncates: "fst (Put p (Some b)) = Some (b\<lparr>buf_len := 0\<rparr>)"
  by (simp add: Put_def Let_def)

text \<open>
  What does hold after any sequence of operations on a new pool: every stored buffer is
  truncated and within the limit of its class, so \<open>Get\<close> always returns length 0;
  an oversize request is served with exactly the requested capacity.
\<close>

lemma pool_ok_New: "pool_ok NewBufferPool"
  by (simp add: pool_ok_def class_ok_def NewBufferPool_def)

lemma pool_Get_class_ok:
  assumes "class_ok limit items" "buf_len new = 0" "int (buf_cap new) \<le> limit"
  shows "class_ok limit (snd (pool_Get pk new items))
         \<and> buf_len (fst (pool_Get pk new items)) = 0
         \<and> int (buf_cap (fst (pool_Get pk new items))) \<le> limit"
proof (cases pk)
  case Fresh
  with assms show ?thesis by (simp add: pool_Get_def)
next
  case (Stored i)
  show ?thesis
  proof (cases "i < length items")
    case True
    from assms(1) have all: "\<forall>b \<in> set items. buf_len b = 0 \<and> int (buf_cap b) \<le> limit"
      by (simp add: class_ok_def list_all_iff)
    have "set (take i items @ drop (Suc i) items) \<subseteq> set items"
      using set_take_subset [of i items] set_drop_subset [of "Suc i" items] by auto
    with all have "class_ok limit (take i items @ drop (Suc i) items)"
      unfolding class_ok_def list_all_iff by blast
    moreover from True have "items ! i \<in> set items" by simp
    ultimately show ?thesis
      using Stored True all by (simp add: pool_Get_def)
  next
    case False
    with Stored assms show ?thesis by (simp add: pool_Get_def)
  qed
qed

lemma Get_pool_ok:
  assumes "pool_ok p"
  shows "pool_ok (snd (Get p pk sz)) \<and> buf_len (fst (Get p pk sz)) = 0"
proof -
  from assms have s: "class_ok smallBufferSize (small p)"
    and m: "class_ok mediumBufferSize (medium p)"
    and l: "class_ok largeBufferSize (large p)"
    by (simp_all add: pool_ok_def)
  note gs = pool_Get_class_ok [OF s, of "make_buffer smallBufferSize" pk]
  note gm = pool_Get_class_ok [OF m, of "make_buffer mediumBufferSize" pk]
  note gl = pool_Get_class_ok [OF l, of "make_buffer largeBufferSize" pk]
  have new: "buf_len (make_buffer c) = 0" "0 \<le> c \<Longrightarrow> int (buf_cap (make_buffer c)) \<le> c" for c
    by (simp_all add: make_buffer_def)
  have pos: "0 \<le> smallBufferSize" "0 \<le> mediumBufferSize" "0 \<le> largeBufferSize"
    by (simp_all add: smallBufferSize_def mediumBufferSize_def largeBufferSize_def)
  show ?thesis
    using gs gm gl new pos s m l
    by (simp add: Get_def pool_ok_def case_prod_beta Let_def)
qed

lemma Put_pool_ok:
  assumes "pool_ok p"
  shows "pool_ok (snd (Put p buf))"
  using assms
  by (cases buf) (simp_all add: Put_def pool_ok_def class_ok_def pool_Put_def Let_def)

lemma run_ops_pool_ok: "pool_ok p \<Longrightarrow> pool_ok (run_ops p ops)"
proof (induction ops arbitrary: p)
  case Nil
  then show ?case by simp
next
  case (Cons op ops)
  then show ?case
    by (cases op) (simp_all add: Get_pool_ok Put_pool_ok)
qed

lemma Get_length_zero_always:
  "buf_len (fst (Get (run_ops NewBufferPool ops) pk sz)) = 0"
  using Get_pool_ok [OF run_ops_pool_ok [OF pool_ok_New]] by simp

lemma Get_oversize_capacity:
  "largeBufferSize < sz \<Longrightarrow> int (buf_cap (fst (Get p pk sz))) = sz"
  by (simp add: Get_def make_buffer_def smallBufferSize_def mediumBufferSize_def
      largeBufferSize_def)

text \<open>
  C7 fails on the code: \<open>Put\<close> files a buffer under the first class whose limit is at
  least its capacity, so a 100-byte buffer lands in the 4 KiB class, and the next
  \<open>Get(4096)\<close> that the pool serves from its store returns it: length 0, capacity 100,
  less than the 4096 requested. The same happens one class up: a buffer grown to 8192
  bytes is filed under the 64 KiB class and answers \<open>Get(65536)\<close>.
\<close>

theorem Get_after_Put_undersized:
  "Get (snd (Put NewBufferPool (Some \<lparr>buf_len = 3, buf_cap = 100\<rparr>))) (Stored 0) 4096
     = (\<lparr>buf_len = 0, buf_cap = 100\<rparr>, NewBufferPool)
   \<and> Get (snd (Put NewBufferPool (Some \<lparr>buf_len = 5000, buf_cap = 8192\<rparr>))) (Stored 0) 65536
     = (\<lparr>buf_len = 0, buf_cap = 8192\<rparr>, NewBufferPool)"
  by (simp add: Get_def Put_def pool_Get_def pool_Put_def NewBufferPool_def Let_def
      smallBufferSize_def mediumBufferSize_def largeBufferSize_def)

section \<open>Properties of the credential state update\<close>

lemma ensureModelState_stored:
  "auth_ModelStates (fst (ensureModelState auth m)) m = Some (snd (ensureModelState auth m))"
  by (simp add: ensureModelState_def store_state_def split: option.splits)

lemma quota_cooldown_store:
  "quota_cooldown (store_state auth m st) m t =
     (Exceeded (ms_Quota st) \<and> NextRecoverAt (ms_Quota st) = t \<and> ms_NextRetryAfter st = t)"
  by (simp add: quota_cooldown_def store_state_def)

lemma quota_cooldown_auth_fields [simp]:
  "quota_cooldown (auth\<lparr>auth_Status := s\<rparr>) m t = quota_cooldown auth m t"
  "quota_cooldown (auth\<lparr>auth_UpdatedAt := u\<rparr>) m t = quota_cooldown auth m t"
  "quota_cooldown (auth\<lparr>auth_LastError := e\<rparr>) m t = quota_cooldown auth m t"
  "quota_cooldown (auth\<lparr>auth_StatusMessage := msg\<rparr>) m t = quota_cooldown auth m t"
  by (simp_all add: quota_cooldown_def)

lemma quota_failure_cooldown:
  assumes "res_RetryAfter result = Some d"
    and "\<And>a q n. quota_cooldown a (res_Model result) (now + d) \<Longrightarrow>
           quota_cooldown (fst (propagateQuotaToGroup H a (res_Model result) q n now))
             (res_Model result) (now + d)"
  shows "quota_cooldown (fst (quota_failure H auth result now state sig)) (res_Model result) (now + d)"
proof -
  let ?st = "state\<lparr>ms_NextRetryAfter := now + d,
                   ms_Quota := \<lparr>Exceeded = True, Reason = ''quota'',
                                NextRecoverAt = now + d,
                                BackoffLevel = BackoffLevel (ms_Quota state)\<rparr>\<rparr>"
  have "quota_cooldown (store_state auth (res_Model result) ?st) (res_Model result) (now + d)"
    by (simp add: quota_cooldown_store)
  from assms(2) [OF this]
  show ?thesis
    by (simp add: quota_failure_def assms(1) Let_def case_prod_beta)
qed

text \<open>
  C1: a failure with status 429 that carries a retry-after duration \<open>d\<close>, for a
  result that names a model, puts that model in quota cooldown until \<open>now + d\<close>:
  quota exceeded, \<open>NextRecoverAt = now + d\<close> and \<open>NextRetryAfter = now + d\<close>,
  \<open>now\<close> being the instant of processing. The two helpers called after the state is
  written (the quota-group walk and the aggregation) are assumed to keep that cooldown.
\<close>

theorem updateAuthState_quota_retry_after:
  assumes "\<not> res_Success result" and "res_Model result \<noteq> []"
    and "statusCodeFromResult (res_Error result) = 429"
    and "res_RetryAfter result = Some d"
    and "\<And>a q n. quota_cooldown a (res_Model result) (now + d) \<Longrightarrow>
           quota_cooldown (fst (propagateQuotaToGroup H a (res_Model result) q n now))
             (res_Model result) (now + d)"
    and "\<And>a. quota_cooldown a (res_Model result) (now + d) \<Longrightarrow>
           quota_cooldown (updateAggregatedAvailability H a now) (res_Model result) (now + d)"
  shows "quota_cooldown (fst (updateAuthState H auth result now sig)) (res_Model result) (now + d)"
proof -
  have sw: "quota_cooldown (fst (status_switch H a result now 429 st sg)) (res_Model result) (now + d)"
    for a st sg
    using quota_failure_cooldown [OF assms(4) assms(5)] by (simp add: status_switch_def)
  show ?thesis
    using assms(1-3)
    by (simp add: updateAuthState_def model_failure_def Let_def case_prod_beta assms(6) sw)
qed


theorem updateAuthState_quota_retry_after_witness:
  "quota_cooldown
     (fst (updateAuthState plain_helpers demo_auth
        (demo_result False (Some (60 * Second)) (Some \<lparr>err_Message = ''slow down'', err_HTTPStatus = 429\<rparr>))
        5000 no_signals))
     ''claude-sonnet-4-5'' (5000 + 60 * Second)"
proof -
  let ?r = "demo_result False (Some (60 * Second)) (Some \<lparr>err_Message = ''slow down'', err_HTTPStatus = 429\<rparr>)"
  have m: "res_Model ?r = ''claude-sonnet-4-5''" by (simp add: demo_result_def)
  have "quota_cooldown (fst (updateAuthState plain_helpers demo_auth ?r 5000 no_signals))
          (res_Model ?r) (5000 + 60 * Second)"
    by (rule updateAuthState_quota_retry_after) (simp_all add: demo_result_def statusCodeFromResult_def plain_helpers_def)
  then show ?thesis unfolding m .
qed

lemma model_available_store:
  "model_available (store_state auth m st) m now = (\<not> ms_Unavailable st \<and> ms_NextRetryAfter st \<le> now)"
  by (simp add: model_available_def store_state_def)

lemma model_available_auth_fields [simp]:
  "model_available (auth\<lparr>auth_Status := s\<rparr>) m t = model_available auth m t"
  "model_available (auth\<lparr>auth_UpdatedAt := u\<rparr>) m t = model_available auth m t"
  "model_available (auth\<lparr>auth_LastError := e\<rparr>) m t = model_available auth m t"
  "model_available (auth\<lparr>auth_StatusMessage := msg\<rparr>) m t = model_available auth m t"
  by (simp_all add: model_available_def)

text \<open>
  C2: after a successful result for a model, the model is available at \<open>now\<close>: its
  unavailable flag is clear and its \<open>NextRetryAfter\<close> is not after \<open>now\<close>. The
  instant \<open>now\<close> is a clock reading, hence not before the zero time; the two helpers
  called after the reset are assumed not to take an available model out of service.
\<close>

theorem updateAuthState_success_available:
  assumes "res_Success result" and "res_Model result \<noteq> []" and "zeroTime \<le> now"
    and "\<And>a. model_available a (res_Model result) now \<Longrightarrow>
           model_available (fst (clearQuotaGroupOnSuccess H a (res_Model result) now))
             (res_Model result) now"
    and "\<And>a. model_available a (res_Model result) now \<Longrightarrow>
           model_available (updateAggregatedAvailability H a now) (res_Model result) now"
  shows "model_available (fst (updateAuthState H auth result now sig)) (res_Model result) now"
proof -
  let ?m = "res_Model result"
  let ?a2 = "store_state (fst (ensureModelState auth ?m)) ?m
               (resetModelState (snd (ensureModelState auth ?m)) now)"
  have "model_available ?a2 ?m now"
    using assms(3) by (simp add: model_available_store resetModelState_def)
  from assms(5) [OF assms(4) [OF this]]
  show ?thesis
    using assms(1,2)
    by (simp add: updateAuthState_def model_success_def Let_def case_prod_beta)
qed

theorem updateAuthState_success_available_witness:
  "model_available
     (fst (updateAuthState plain_helpers demo_auth (demo_result True None None) 5000 no_signals))
     ''claude-sonnet-4-5'' 5000"
proof -
  let ?r = "demo_result True None None"
  have m: "res_Model ?r = ''claude-sonnet-4-5''" by (simp add: demo_result_def)
  have "model_available (fst (updateAuthState plain_helpers demo_auth ?r 5000 no_signals))
          (res_Model ?r) 5000"
    by (rule updateAuthState_success_available) (simp_all add: demo_result_def plain_helpers_def zeroTime_def)
  then show ?thesis unfolding m .
qed

text \<open>
  C9: processing a successful result at an instant not before the credential's
  \<open>UpdatedAt\<close> leaves \<open>UpdatedAt\<close> at least as large: a result that names a model
  stamps the credential with \<open>now\<close> as its last write; for a result without a model
  the stamping is left to \<open>clearAuthStateOnSuccess\<close>, assumed to do the same.
\<close>

theorem updateAuthState_success_UpdatedAt:
  assumes "res_Success result" and "auth_UpdatedAt auth \<le> now"
    and "\<And>a. auth_UpdatedAt (clearAuthStateOnSuccess H a now) = now"
  shows "auth_UpdatedAt auth \<le> auth_UpdatedAt (fst (updateAuthState H auth result now sig))"
  using assms
  by (simp add: updateAuthState_def model_success_def Let_def case_prod_beta)

theorem updateAuthState_success_UpdatedAt_witness:
  "auth_UpdatedAt demo_auth
     \<le> auth_UpdatedAt (fst (updateAuthState plain_helpers demo_auth (demo_result True None None) 5000 no_signals))"
  by (rule updateAuthState_success_UpdatedAt) (simp_all add: demo_result_def plain_helpers_def demo_auth_def)

lemma model_unavailable_store:
  "model_unavailable (store_state auth m st) m = ms_Unavailable st"
  by (simp add: model_unavailable_def store_state_def)

lemma model_unavailable_auth_fields [simp]:
  "model_unavailable (auth\<lparr>auth_Status := s\<rparr>) m = model_unavailable auth m"
  "model_unavailable (auth\<lparr>auth_UpdatedAt := u\<rparr>) m = model_unavailable auth m"
  "model_unavailable (auth\<lparr>auth_LastError := e\<rparr>) m = model_unavailable auth m"
  "model_unavailable (auth\<lparr>auth_StatusMessage := msg\<rparr>) m = model_unavailable auth m"
  by (simp_all add: model_unavailable_def)

lemma auth_verdict_fields [simp]:
  "auth_verdict (auth\<lparr>auth_UpdatedAt := u\<rparr>) = auth_verdict auth"
  "auth_verdict (store_state auth m st) = auth_verdict auth"
  by (simp_all add: auth_verdict_def store_state_def)

lemma ensureModelState_unavailable:
  "ms_Unavailable (snd (ensureModelState auth m)) = model_unavailable auth m"
  by (simp add: ensureModelState_def model_unavailable_def newModelState_def split: option.splits)

lemma ensureModelState_verdict:
  "auth_verdict (fst (ensureModelState auth m)) = auth_verdict auth"
  by (simp add: ensureModelState_def split: option.splits)

lemma status_switch_user_error:
  assumes "\<not> ms_Unavailable st"
    and "\<And>a q n. \<not> model_unavailable a (res_Model result) \<Longrightarrow>
           \<not> model_unavailable (fst (propagateQuotaToGroup H a (res_Model result) q n now))
               (res_Model result)"
    and "\<And>a q n. auth_verdict (fst (propagateQuotaToGroup H a (res_Model result) q n now))
           = auth_verdict a"
  shows "\<not> model_unavailable (fst (status_switch H a result now code st sg)) (res_Model result)
         \<and> auth_verdict (fst (status_switch H a result now code st sg)) = auth_verdict a"
  using assms(1)
  by (simp add: status_switch_def quota_failure_def Let_def case_prod_beta
      model_unavailable_store assms(2) assms(3) split: option.splits)

text \<open>
  C3: a failure that the classifier puts in the user-error category, for a result that
  names a model, is not recorded against the credential: a model whose unavailable flag
  was clear (or that had no state yet) still has it clear, and the credential's
  \<open>Status\<close>, \<open>LastError\<close> and \<open>StatusMessage\<close> are what they were. The helpers
  called on the way are assumed to leave these alone.
\<close>

theorem updateAuthState_user_error_not_recorded:
  assumes "\<not> res_Success result" and "res_Model result \<noteq> []"
    and "CategorizeError H (statusCodeFromResult (res_Error result))
           (case res_Error result of Some e \<Rightarrow> err_Message e | None \<Rightarrow> []) = CategoryUserError"
    and "\<not> model_unavailable auth (res_Model result)"
    and "\<And>a q n. \<not> model_unavailable a (res_Model result) \<Longrightarrow>
           \<not> model_unavailable (fst (propagateQuotaToGroup H a (res_Model result) q n now))
               (res_Model result)"
    and "\<And>a q n. auth_verdict (fst (propagateQuotaToGroup H a (res_Model result) q n now))
           = auth_verdict a"
    and "\<And>a. \<not> model_unavailable a (res_Model result) \<Longrightarrow>
           \<not> model_unavailable (updateAggregatedAvailability H a now) (res_Model result)"
    and "\<And>a. auth_verdict (updateAggregatedAvailability H a now) = auth_verdict a"
  shows "\<not> model_unavailable (fst (updateAuthState H auth result now sig)) (res_Model result)
         \<and> auth_verdict (fst (updateAuthState H auth result now sig)) = auth_verdict auth"
proof -
  let ?m = "res_Model result"
  let ?st = "(snd (ensureModelState auth ?m))\<lparr>ms_UpdatedAt := now\<rparr>"
  let ?sw = "status_switch H (fst (ensureModelState auth ?m)) result now
               (statusCodeFromResult (res_Error result)) ?st sig"
  have "\<not> ms_Unavailable ?st"
    using assms(4) by (simp add: ensureModelState_unavailable)
  from status_switch_user_error [OF this assms(5) assms(6)]
  have sw: "\<not> model_unavailable (fst ?sw) ?m" "auth_verdict (fst ?sw) = auth_verdict auth"
    by (simp_all add: ensureModelState_verdict)
  have res: "fst (updateAuthState H auth result now sig)
        = updateAggregatedAvailability H ((fst ?sw)\<lparr>auth_UpdatedAt := now\<rparr>) now"
    using assms(1-3)
    by (simp add: updateAuthState_def model_failure_def Let_def case_prod_beta split: option.splits)
  show ?thesis
    unfolding res using sw by (simp add: assms(7) assms(8))
qed

theorem updateAuthState_user_error_not_recorded_witness:
  "\<not> model_unavailable
       (fst (updateAuthState plain_helpers demo_auth
          (demo_result False None (Some \<lparr>err_Message = ''invalid role'', err_HTTPStatus = 400\<rparr>))
          5000 no_signals))
       ''claude-sonnet-4-5''
   \<and> auth_verdict
       (fst (updateAuthState plain_helpers demo_auth
          (demo_result False None (Some \<lparr>err_Message = ''invalid role'', err_HTTPStatus = 400\<rparr>))
          5000 no_signals))
     = auth_verdict demo_auth"
proof -
  let ?r = "demo_result False None (Some \<lparr>err_Message = ''invalid role'', err_HTTPStatus = 400\<rparr>)"
  have m: "res_Model ?r = ''claude-sonnet-4-5''" by (simp add: demo_result_def)
  have "\<not> model_unavailable (fst (updateAuthState plain_helpers demo_auth ?r 5000 no_signals))
            (res_Model ?r)
        \<and> auth_verdict (fst (updateAuthState plain_helpers demo_auth ?r 5000 no_signals))
            = auth_verdict demo_auth"
    by (rule updateAuthState_user_error_not_recorded)
       (simp_all add: demo_result_def plain_helpers_def demo_auth_def statusCodeFromResult_def
          model_unavailable_def)
  then show ?thesis unfolding m .
qed

section \<open>Properties of preprocess\<close>

lemma int32_id: "is_int32 x \<Longrightarrow> int32 x = x"
  by (simp add: is_int32_def int32_def)

lemma int64_sum: "is_int32 a \<Longrightarrow> is_int32 b \<Longrightarrow> int64 (a + b) = a + b"
  by (simp add: is_int32_def int64_def)

lemma go_quot_2_between:
  "a \<le> b \<Longrightarrow> a \<le> go_quot (a + b) 2 \<and> go_quot (a + b) 2 \<le> b"
  by (simp add: go_quot_def abs_if) presburger


lemma midpoint_between: "range_ok ts \<Longrightarrow> ts_Min ts \<le> midpoint ts \<and> midpoint ts \<le> ts_Max ts"
  unfolding midpoint_def range_ok_def using go_quot_2_between [of "ts_Min ts" "ts_Max ts"] by simp

lemma range_ok_int32: "range_ok ts \<Longrightarrow> is_int32 (ts_Min ts) \<and> is_int32 (ts_Max ts)"
  by (simp add: range_ok_def is_int32_def)




subsection \<open>Idempotence\<close>

lemma promote_snd_cong:
  "req_Model r = req_Model r' \<Longrightarrow> (req_Thinking r = None) = (req_Thinking r' = None) \<Longrightarrow>
     snd (promoteToThinkingModel R r i) = snd (promoteToThinkingModel R r' i')"
  by (auto simp: promoteToThinkingModel_def Let_def split: option.splits)

lemma applyLimits_fields [simp]:
  "req_Model (applyLimits r i) = req_Model r"
  "req_Thinking (applyLimits r i) = req_Thinking r"
  "req_Tools (applyLimits r i) = req_Tools r"
  "req_Messages (applyLimits r i) = req_Messages r"
  by (simp_all add: applyLimits_def clampMaxTokens_def clampCandidateCount_def Let_def
      split: option.splits)

lemma clampMaxTokens_MaxTokens:
  "req_MaxTokens (clampMaxTokens r i) = clamped_max_tokens i (req_MaxTokens r)"
  by (simp add: clampMaxTokens_def clamped_max_tokens_def Let_def split: option.splits)

lemma clampMaxTokens_CandidateCount:
  "req_CandidateCount (clampMaxTokens r i) = req_CandidateCount r"
  by (simp add: clampMaxTokens_def Let_def split: option.splits)

lemma clampCandidateCount_fields:
  "req_MaxTokens (clampCandidateCount r i) = req_MaxTokens r"
  "req_CandidateCount (clampCandidateCount r i) = clamped_candidate_count (req_CandidateCount r)"
  by (simp_all add: clampCandidateCount_def clamped_candidate_count_def Let_def
      split: option.splits)

lemma applyLimits_MaxTokens [simp]:
  "req_MaxTokens (applyLimits r i) = clamped_max_tokens i (req_MaxTokens r)"
  by (simp add: applyLimits_def clampCandidateCount_fields clampMaxTokens_MaxTokens)

lemma applyLimits_CandidateCount [simp]:
  "req_CandidateCount (applyLimits r i) = clamped_candidate_count (req_CandidateCount r)"
  by (simp add: applyLimits_def clampCandidateCount_fields clampMaxTokens_CandidateCount)

lemma applyClaudeDefaults_fields [simp]:
  "req_Model (applyClaudeDefaults R r) = req_Model r"
  "req_Thinking (applyClaudeDefaults R r) = req_Thinking r"
  "req_CandidateCount (applyClaudeDefaults R r) = req_CandidateCount r"
  "req_Messages (applyClaudeDefaults R r) = req_Messages r"
  "req_MaxTokens (applyClaudeDefaults R r) = defaulted_max_tokens R (req_Model r) (req_MaxTokens r)"
  "req_Tools (applyClaudeDefaults R r) =
     (if IsClaudeModel R (req_Model r) then CleanToolsForAntigravityClaude R (req_Tools r)
      else req_Tools r)"
  by (simp_all add: applyClaudeDefaults_def defaulted_max_tokens_def Let_def)

lemma clamped_candidate_count_idem:
  "clamped_candidate_count (clamped_candidate_count cc) = clamped_candidate_count cc"
  by (cases cc) (simp_all add: clamped_candidate_count_def)

lemma clamped_after_default:
  assumes "default_within_limit R i"
  shows "clamped_max_tokens i (defaulted_max_tokens R m (clamped_max_tokens i mt))
         = defaulted_max_tokens R m (clamped_max_tokens i mt)"
  using assms
  by (cases i; cases mt)
     (auto simp: clamped_max_tokens_def defaulted_max_tokens_def default_within_limit_def Let_def)

lemma defaulted_idem:
  "defaulted_max_tokens R m (defaulted_max_tokens R m mt) = defaulted_max_tokens R m mt"
  by (simp add: defaulted_max_tokens_def)

lemma thinking_fields [simp]:
  "\<not> snd (promoteToThinkingModel R r i) \<Longrightarrow> req_Model (applyThinkingNormalization R r i) = req_Model r"
  "req_MaxTokens (applyThinkingNormalization R r i) = req_MaxTokens r"
  "req_CandidateCount (applyThinkingNormalization R r i) = req_CandidateCount r"
  "req_Tools (applyThinkingNormalization R r i) = req_Tools r"
  "req_Messages (applyThinkingNormalization R r i) = req_Messages r"
  "(req_Thinking (applyThinkingNormalization R r i) = None) = (req_Thinking r = None)"
  by (auto simp: applyThinkingNormalization_def promoteToThinkingModel_def
      normalizeThinkingBudget_def Let_def split: option.splits)


lemma resolve_plain_int32:
  assumes "range_ok ts" "is_int32 b"
  shows "is_int32 (resolve_plain ts b)"
  using assms midpoint_between [OF assms(1)]
  by (auto simp: resolve_plain_def clamp_budget_def Let_def range_ok_def is_int32_def)

lemma resolve_budget_plain:
  assumes "range_ok ts" "is_int32 b"
  shows "resolve_budget ts b = resolve_plain ts b"
proof -
  have i64: "int64 (ts_Min ts + ts_Max ts) = ts_Min ts + ts_Max ts"
    using range_ok_int32 [OF assms(1)] by (simp add: int64_sum)
  have "resolve_budget ts b = int32 (resolve_plain ts b)"
    unfolding resolve_budget_def resolve_plain_def midpoint_def i64 Let_def by (rule refl)
  with resolve_plain_int32 [OF assms] show ?thesis by (simp add: int32_id)
qed

lemma resolve_plain_idem:
  assumes "range_ok ts"
  shows "resolve_plain ts (resolve_plain ts b) = resolve_plain ts b"
  using assms midpoint_between [OF assms(1)]
  by (auto simp: resolve_plain_def clamp_budget_def Let_def range_ok_def)

lemma resolve_budget_idem:
  assumes "range_ok ts" "is_int32 b"
  shows "resolve_budget ts (resolve_budget ts b) = resolve_budget ts b"
  using resolve_plain_int32 [OF assms]
  by (simp add: resolve_budget_plain assms resolve_plain_idem)


lemma int32_1024: "int32 1024 = 1024"
  by (simp add: int32_def)

lemma normalize_idem:
  assumes "budget_is_int32 r" "info_range_ok i"
  shows "normalizeThinkingBudget (normalizeThinkingBudget r i) i = normalizeThinkingBudget r i"
  using assms
  by (auto simp: normalizeThinkingBudget_def budget_is_int32_def info_range_ok_def
      resolve_budget_idem split: option.splits)

lemma normalize_fields [simp]:
  "req_Model (normalizeThinkingBudget r i) = req_Model r"
  "(req_Thinking (normalizeThinkingBudget r i) = None) = (req_Thinking r = None)"
  by (auto simp: normalizeThinkingBudget_def split: option.splits)

lemma normalize_budget_int32:
  assumes "budget_is_int32 r" "info_range_ok i"
  shows "budget_is_int32 (normalizeThinkingBudget r i)"
  using assms
  by (auto simp: normalizeThinkingBudget_def budget_is_int32_def info_range_ok_def
      resolve_budget_plain resolve_plain_int32 split: option.splits)

lemma promote_budget_int32:
  assumes "budget_is_int32 r"
  shows "budget_is_int32 (fst (promoteToThinkingModel R r i))"
  using assms
  by (auto simp: promoteToThinkingModel_def budget_is_int32_def int32_1024 is_int32_def Let_def
      split: option.splits)

text \<open>Without a promotion, the promotion step commutes with budget normalisation and is idempotent.\<close>

lemma promote_normalize:
  assumes "\<not> snd (promoteToThinkingModel R r i)"
  shows "fst (promoteToThinkingModel R (normalizeThinkingBudget (fst (promoteToThinkingModel R r i)) i) i)
         = normalizeThinkingBudget (fst (promoteToThinkingModel R r i)) i"
proof (cases "req_Thinking r")
  case None
  then show ?thesis
    by (simp add: promoteToThinkingModel_def normalizeThinkingBudget_def)
next
  case (Some th)
  show ?thesis
  proof (cases "IsClaudeModel R (req_Model r)")
    case False
    with Some show ?thesis
      by (simp add: promoteToThinkingModel_def normalizeThinkingBudget_def split: option.splits)
  next
    case claude: True
    show ?thesis
    proof (cases "HasSuffix (req_Model r) ''-thinking''")
      case True
      with Some claude show ?thesis
        by (simp add: promoteToThinkingModel_def normalizeThinkingBudget_def split: option.splits)
    next
      case False
      with Some claude assms have "GetModelInfo R (req_Model r @ ''-thinking'') = None"
        by (simp add: promoteToThinkingModel_def Let_def split: if_splits)
      with False Some claude show ?thesis
        by (simp add: promoteToThinkingModel_def normalizeThinkingBudget_def Let_def
            split: option.splits)
    qed
  qed
qed

lemma thinking_idem:
  assumes "\<not> snd (promoteToThinkingModel R r i)" "budget_is_int32 r" "info_range_ok i"
  shows "applyThinkingNormalization R (applyThinkingNormalization R r i) i
         = applyThinkingNormalization R r i"
  unfolding applyThinkingNormalization_def promote_normalize [OF assms(1)]
  by (rule normalize_idem [OF promote_budget_int32 [OF assms(2)] assms(3)])


lemma thinking_Thinking_cong:
  assumes "req_Model x = req_Model x'" "req_Thinking x = req_Thinking x'"
  shows "req_Thinking (applyThinkingNormalization R x i)
         = req_Thinking (applyThinkingNormalization R x' i)"
  using assms
  by (simp add: applyThinkingNormalization_def promoteToThinkingModel_def
      normalizeThinkingBudget_def Let_def split: option.splits)


lemma preprocess_fields:
  assumes "\<not> snd (promoteToThinkingModel R x (GetModelInfo R (req_Model x)))"
  shows "req_Model (preprocess R x) = req_Model x"
    and "req_Messages (preprocess R x) = req_Messages x"
    and "req_Tools (preprocess R x) =
           (if IsClaudeModel R (req_Model x) then CleanToolsForAntigravityClaude R (req_Tools x)
            else req_Tools x)"
    and "req_MaxTokens (preprocess R x) =
           defaulted_max_tokens R (req_Model x)
             (clamped_max_tokens (GetModelInfo R (req_Model x)) (req_MaxTokens x))"
    and "req_CandidateCount (preprocess R x) = clamped_candidate_count (req_CandidateCount x)"
    and "req_Thinking (preprocess R x) =
           req_Thinking (applyThinkingNormalization R x (GetModelInfo R (req_Model x)))"
proof -
  let ?i = "GetModelInfo R (req_Model x)"
  have np: "\<not> snd (promoteToThinkingModel R (applyLimits x ?i) ?i)"
    using assms promote_snd_cong [of "applyLimits x ?i" x R ?i ?i] by simp
  show "req_Model (preprocess R x) = req_Model x"
    using np by (simp add: preprocess_def applyProviderDefaults_def Let_def)
  show "req_Messages (preprocess R x) = req_Messages x"
    by (simp add: preprocess_def applyProviderDefaults_def Let_def)
  show "req_Tools (preprocess R x) =
           (if IsClaudeModel R (req_Model x) then CleanToolsForAntigravityClaude R (req_Tools x)
            else req_Tools x)"
    using np by (simp add: preprocess_def applyProviderDefaults_def Let_def)
  show "req_MaxTokens (preprocess R x) =
           defaulted_max_tokens R (req_Model x) (clamped_max_tokens ?i (req_MaxTokens x))"
    using np by (simp add: preprocess_def applyProviderDefaults_def Let_def)
  show "req_CandidateCount (preprocess R x) = clamped_candidate_count (req_CandidateCount x)"
    by (simp add: preprocess_def applyProviderDefaults_def Let_def)
  show "req_Thinking (preprocess R x) = req_Thinking (applyThinkingNormalization R x ?i)"
    using thinking_Thinking_cong [of "applyLimits x ?i" x R ?i]
    by (simp add: preprocess_def applyProviderDefaults_def Let_def)
qed

text \<open>
  C5 fails on the code. A request for \<open>claude-sonnet-4-5\<close> with a thinking block,
  when the registry has \<open>claude-sonnet-4-5-thinking\<close>, is only renamed by the first
  application: \<open>promoteToThinkingModel\<close> returns right after the rename, without the
  defaults that its branch for names ending in \<open>-thinking\<close> applies, and
  \<open>normalizeThinkingBudget\<close> then works with the registry entry of the old name. So
  an unset budget stays unset, and a budget of 100 stays below the thinking model's
  minimum of 1024. The second application sees the suffix and the new entry, and sets
  budget 1024 and \<open>include_thoughts\<close>: it differs from the first.
\<close>

theorem preprocess_promotion_not_idempotent:
  "preprocess demo_registry (demo_request ''claude-sonnet-4-5'' None)
     = \<lparr>req_Model = ''claude-sonnet-4-5-thinking'', req_Messages = [], req_Tools = [],
        req_MaxTokens = Some 64000, req_CandidateCount = Some 8,
        req_Thinking = Some \<lparr>IncludeThoughts = False, ThinkingBudget = None,
                              Summary = [], Effort = []\<rparr>\<rparr>
   \<and> preprocess demo_registry (preprocess demo_registry (demo_request ''claude-sonnet-4-5'' None))
     = \<lparr>req_Model = ''claude-sonnet-4-5-thinking'', req_Messages = [], req_Tools = [],
        req_MaxTokens = Some 64000, req_CandidateCount = Some 8,
        req_Thinking = Some \<lparr>IncludeThoughts = True, ThinkingBudget = Some 1024,
                              Summary = [], Effort = []\<rparr>\<rparr>
   \<and> preprocess demo_registry (demo_request ''claude-sonnet-4-5'' (Some 100))
     = \<lparr>req_Model = ''claude-sonnet-4-5-thinking'', req_Messages = [], req_Tools = [],
        req_MaxTokens = Some 64000, req_CandidateCount = Some 8,
        req_Thinking = Some \<lparr>IncludeThoughts = False, ThinkingBudget = Some 100,
                              Summary = [], Effort = []\<rparr>\<rparr>
   \<and> preprocess demo_registry (preprocess demo_registry (demo_request ''claude-sonnet-4-5'' (Some 100)))
     = \<lparr>req_Model = ''claude-sonnet-4-5-thinking'', req_Messages = [], req_Tools = [],
        req_MaxTokens = Some 64000, req_CandidateCount = Some 8,
        req_Thinking = Some \<lparr>IncludeThoughts = True, ThinkingBudget = Some 1024,
                              Summary = [], Effort = []\<rparr>\<rparr>
   \<and> preprocess demo_registry (preprocess demo_registry (demo_request ''claude-sonnet-4-5'' None))
     \<noteq> preprocess demo_registry (demo_request ''claude-sonnet-4-5'' None)"
  by (simp add: preprocess_def demo_registry_def demo_request_def applyLimits_def
      clampMaxTokens_def clampCandidateCount_def applyThinkingNormalization_def
      promoteToThinkingModel_def normalizeThinkingBudget_def applyProviderDefaults_def
      applyClaudeDefaults_def HasSuffix_def has_prefix_def Let_def int32_def
      resolve_budget_def clamp_budget_def)

text \<open>
  With the passes in the specification's order, a default \<open>max_tokens\<close> above the
  model's output limit is a second way for two applications to differ from one: the
  first sets the default after the clamp has run, the second clamps it.
\<close>

lemma preprocess_default_clamped_by_second_application:
  "req_MaxTokens (preprocess (demo_registry\<lparr>ClaudeDefaultMaxTokens := 100000\<rparr>)
      ((demo_request ''claude-sonnet-4-5-thinking'' (Some 2000))\<lparr>req_MaxTokens := None\<rparr>))
     = Some 100000
   \<and> req_MaxTokens (preprocess (demo_registry\<lparr>ClaudeDefaultMaxTokens := 100000\<rparr>)
      (preprocess (demo_registry\<lparr>ClaudeDefaultMaxTokens := 100000\<rparr>)
        ((demo_request ''claude-sonnet-4-5-thinking'' (Some 2000))\<lparr>req_MaxTokens := None\<rparr>)))
     = Some 64000"
  by (simp add: preprocess_def demo_registry_def demo_request_def applyLimits_def
      clampMaxTokens_def clampCandidateCount_def applyThinkingNormalization_def
      promoteToThinkingModel_def normalizeThinkingBudget_def applyProviderDefaults_def
      applyClaudeDefaults_def HasSuffix_def has_prefix_def Let_def int32_def
      resolve_budget_def clamp_budget_def)

text \<open>
  Away from these two cases a second application changes nothing: on a request that is
  not promoted, whose budget is an \<open>int32\<close> value, for a model with a range of
  non-negative budgets and a limit that the Claude default respects, and with a tool
  cleaner that is itself idempotent.
\<close>

lemma preprocess_idempotent_without_promotion:
  assumes np: "\<not> promotes R x"
    and b32: "budget_is_int32 x"
    and rng: "info_range_ok (GetModelInfo R (req_Model x))"
    and dfl: "default_within_limit R (GetModelInfo R (req_Model x))"
    and cln: "\<And>tools. CleanToolsForAntigravityClaude R (CleanToolsForAntigravityClaude R tools)
                = CleanToolsForAntigravityClaude R tools"
  shows "preprocess R (preprocess R x) = preprocess R x"
proof -
  let ?i = "GetModelInfo R (req_Model x)"
  let ?y = "preprocess R x"
  let ?T = "\<lambda>z. applyThinkingNormalization R z ?i"
  from np have npx: "\<not> snd (promoteToThinkingModel R x ?i)"
    by (simp add: promotes_def)
  note fx = preprocess_fields [OF npx]
  have my: "req_Model ?y = req_Model x" by (rule fx(1))
  have ty: "req_Thinking ?y = req_Thinking (?T x)" by (rule fx(6))
  have "(req_Thinking ?y = None) = (req_Thinking x = None)"
    unfolding ty by simp
  with my npx have npy: "\<not> snd (promoteToThinkingModel R ?y (GetModelInfo R (req_Model ?y)))"
    using promote_snd_cong [of ?y x R ?i ?i] by simp
  note fy = preprocess_fields [OF npy]
  have mT: "req_Model (?T x) = req_Model x" using npx by simp
  have "req_Thinking (?T ?y) = req_Thinking (?T (?T x))"
    by (rule thinking_Thinking_cong) (simp_all add: my mT ty)
  also have "\<dots> = req_Thinking (?T x)"
    by (simp add: thinking_idem [OF npx b32 rng])
  finally have th: "req_Thinking (preprocess R ?y) = req_Thinking ?y"
    unfolding fy(6) my ty .
  show ?thesis
  proof (rule UnifiedChatRequest.equality)
    show "req_Model (preprocess R ?y) = req_Model ?y" by (rule fy(1))
    show "req_Messages (preprocess R ?y) = req_Messages ?y" by (rule fy(2))
    show "req_Tools (preprocess R ?y) = req_Tools ?y"
      unfolding fy(3) my unfolding fx(3) by (simp add: cln)
    show "req_MaxTokens (preprocess R ?y) = req_MaxTokens ?y"
      unfolding fy(4) my unfolding fx(4)
      by (simp add: clamped_after_default [OF dfl] defaulted_idem)
    show "req_CandidateCount (preprocess R ?y) = req_CandidateCount ?y"
      unfolding fy(5) fx(5) by (rule clamped_candidate_count_idem)
    show "req_Thinking (preprocess R ?y) = req_Thinking ?y" by (rule th)
    show "UnifiedChatRequest.more (preprocess R ?y) = UnifiedChatRequest.more ?y" by simp
  qed
qed

lemma preprocess_idempotent_on_thinking_model:
  "preprocess demo_registry (preprocess demo_registry (demo_request ''claude-sonnet-4-5-thinking'' (Some (- 1))))
   = preprocess demo_registry (demo_request ''claude-sonnet-4-5-thinking'' (Some (- 1)))"
  by (rule preprocess_idempotent_without_promotion)
     (simp_all add: promotes_def promoteToThinkingModel_def demo_registry_def demo_request_def
        budget_is_int32_def is_int32_def info_range_ok_def range_ok_def default_within_limit_def
        HasSuffix_def has_prefix_def Let_def)

end
